theory Spec2Isabelle
  imports Complex_Main
begin

section \<open>Numbers and vectors\<close>

text \<open>
  The engine computes with JavaScript numbers. They are modelled as real numbers: no
  rounding, no NaN and no infinity. Every statement below about a sum, a product or a
  quotient is a statement about this ideal arithmetic. A quotient by zero, which
  JavaScript answers with an infinity or NaN, has no counterpart here: a statement about
  the value of a quotient is to be read for a nonzero divisor, and where a conclusion about
  the bodies depends on one, the hypothesis \<open>rb_wellformed\<close> makes the divisors positive.

  A \<open>Vector\<close> is a value here. In the program it is an object, and lines 65 and 66
  write the coordinates of \<open>bodyA.pos\<close> in place: every reference to that object sees
  the write. What a body's own position, velocity and correction become does not depend on
  that. What the contact's fields read after a resolution does, and the section on shared
  vectors below gives the contact references to its vectors.
\<close>

datatype Vector = Vector (vx: real) (vy: real)

text \<open>
  Modelled from the spec: the class \<open>Vector\<close> of \<open>../Algebra\<close> is missing from the
  sources. The spec lists "2D vector arithmetic, dot/cross, normalize" as available
  primitives; sum, difference, scaling, negation, dot product and length are the usual
  ones.
\<close>

definition Vector_add :: "Vector \<Rightarrow> Vector \<Rightarrow> Vector" where
  "Vector_add a b = Vector (vx a + vx b) (vy a + vy b)"

definition Vector_sub :: "Vector \<Rightarrow> Vector \<Rightarrow> Vector" where
  "Vector_sub a b = Vector (vx a - vx b) (vy a - vy b)"

definition Vector_scale :: "Vector \<Rightarrow> real \<Rightarrow> Vector" where
  "Vector_scale a k = Vector (vx a * k) (vy a * k)"

definition Vector_negate :: "Vector \<Rightarrow> Vector" where
  "Vector_negate a = Vector (- vx a) (- vy a)"

definition Vector_dot :: "Vector \<Rightarrow> Vector \<Rightarrow> real" where
  "Vector_dot a b = vx a * vx b + vy a * vy b"

definition Vector_distance :: "Vector \<Rightarrow> real" where
  "Vector_distance a = sqrt (vx a * vx a + vy a * vy a)"

text \<open>
  Modelled from the spec: \<open>cross\<close> of two vectors is the scalar 2D cross product;
  \<open>cross\<close> of a vector and a number "rotates the vector by the scalar angular rate",
  that is, a quarter turn scaled by the number. The spec does not fix the sense of the
  quarter turn; the clockwise one is taken here, and no statement below depends on it.
\<close>

definition Vector_cross :: "Vector \<Rightarrow> Vector \<Rightarrow> real" where
  "Vector_cross a b = vx a * vy b - vy a * vx b"

definition Vector_cross_num :: "Vector \<Rightarrow> real \<Rightarrow> Vector" where
  "Vector_cross_num a k = Vector (k * vy a) (- k * vx a)"

text \<open>
  Modelled from the spec: \<open>normal()\<close> is the vector "rotated 90 degrees" (the caller
  normalizes the result itself).
\<close>

definition Vector_normal :: "Vector \<Rightarrow> Vector" where
  "Vector_normal a = Vector (vy a) (- vx a)"

text \<open>
  Modelled from the spec: \<open>normalize\<close> scales a vector to length one. The spec does not
  say what it returns for the zero vector, which has no direction: that value is the
  parameter \<open>z\<close>.
\<close>

definition Vector_normalize :: "Vector \<Rightarrow> Vector \<Rightarrow> Vector" where
  "Vector_normalize z a =
     (let d = Vector_distance a
      in if d > 0 then Vector (vx a / d) (vy a / d) else z)"

section \<open>Bodies, colliders, contacts\<close>

datatype CollisionType = Active | Passive | Fixed

text \<open>
  Bodies and colliders are objects that refer to each other; a contact refers to two
  colliders. Objects are named by addresses (natural numbers) into a store, so that
  \<open>bodyA === bodyB\<close> is equality of addresses and a write through one reference is
  seen through every other.

  Modelled from the spec: the classes \<open>Body\<close> and \<open>Collider\<close> are missing from the
  sources; their fields are the ones the contact reads and writes. \<open>totalMtv\<close> is the
  "accumulated minimum-translation correction" of a body.
\<close>

record Body =
  pos :: Vector
  vel :: Vector
  rx :: real
  collisionType :: CollisionType
  totalMtv :: Vector
  collider :: nat

record Collider =
  body :: nat
  mass :: real
  moi :: real
  restitution :: real
  friction :: real
  center :: Vector

record CollisionContact =
  colliderA :: nat
  colliderB :: nat
  mtv :: Vector
  point :: Vector
  normal :: Vector

datatype Side = SideNone | Top | Bottom | Left | Right

datatype GameEvent =
    PreCollisionEvent nat nat Side Vector
  | PostCollisionEvent nat nat Side Vector

text \<open>
  The state a resolution runs in: the contact itself (\<open>this\<close>), the store of bodies and
  of colliders, and the log of emitted events, oldest first. An entry of the log is the
  collider \<open>emit\<close> was called on, the event name and the event object. Event handlers
  are outside the engine core and are not run.
\<close>

record World =
  this :: CollisionContact
  bodies :: "nat \<Rightarrow> Body"
  colliders :: "nat \<Rightarrow> Collider"
  emitted :: "(nat \<times> string \<times> GameEvent) list"

text \<open>
  What the contact reads from outside: the flag \<open>Physics.allowRigidBodyRotation\<close>,
  the helpers \<open>Util.getSideFromVector\<close> and \<open>Util.getOppositeSide\<close>, whose sources are
  missing and which are therefore parameters, and the value of \<open>normalize\<close> at the
  zero vector.
\<close>

record Env =
  allowRigidBodyRotation :: bool
  getSideFromVector :: "Vector \<Rightarrow> Side"
  getOppositeSide :: "Side \<Rightarrow> Side"
  normalizeZero :: Vector

text \<open>
  Modelled from the spec: the enumeration \<open>CollisionResolutionStrategy\<close> of
  \<open>../Physics\<close> is missing from the sources. It has the members \<open>Box\<close> and
  \<open>RigidBody\<close>; \<open>UnknownStrategy k\<close> stands for any other value that reaches
  \<open>resolve\<close> at run time.
\<close>

datatype CollisionResolutionStrategy = Box | RigidBody | UnknownStrategy nat

text \<open>
  A call either returns or throws. A thrown error does not undo earlier writes, so the
  outcome comes together with the state the call leaves behind.
\<close>

datatype Outcome = Returned | Threw string

section \<open>Statements that write to the store\<close>

definition emit :: "nat \<Rightarrow> string \<Rightarrow> GameEvent \<Rightarrow> World \<Rightarrow> World" where
  "emit target eventName ev s = s\<lparr>emitted := emitted s @ [(target, eventName, ev)]\<rparr>"

text \<open>
  \<open>set_pos\<close> gives a body its new position as a value. The program writes the
  coordinates of the position object in place; what other references to that object then
  read is \<open>set_pos_shared\<close>, in the section on shared vectors.
\<close>

definition set_pos :: "nat \<Rightarrow> Vector \<Rightarrow> World \<Rightarrow> World" where
  "set_pos b v s = s\<lparr>bodies := (bodies s)(b := (bodies s b)\<lparr>pos := v\<rparr>)\<rparr>"

definition set_vel :: "nat \<Rightarrow> Vector \<Rightarrow> World \<Rightarrow> World" where
  "set_vel b v s = s\<lparr>bodies := (bodies s)(b := (bodies s b)\<lparr>vel := v\<rparr>)\<rparr>"

definition set_rx :: "nat \<Rightarrow> real \<Rightarrow> World \<Rightarrow> World" where
  "set_rx b r s = s\<lparr>bodies := (bodies s)(b := (bodies s b)\<lparr>rx := r\<rparr>)\<rparr>"

text \<open>
  Modelled from the spec: \<open>Body.addMtv\<close> is missing from the sources. "The positional
  correction is accumulated, not overwritten": the vector is added to the body's
  accumulated correction.
\<close>

definition addMtv :: "nat \<Rightarrow> Vector \<Rightarrow> World \<Rightarrow> World" where
  "addMtv b m s =
     s\<lparr>bodies := (bodies s)(b := (bodies s b)\<lparr>totalMtv := Vector_add (totalMtv (bodies s b)) m\<rparr>)\<rparr>"

section \<open>The two bodies of a contact\<close>

text \<open>
  Both strategies start with \<open>bodyA = this.colliderA.body\<close> and
  \<open>bodyB = this.colliderB.body\<close> (lines 83, 84 and 97, 98).
\<close>

definition bodyA_of :: "World \<Rightarrow> nat" where
  "bodyA_of s = body (colliders s (colliderA (this s)))"

definition bodyB_of :: "World \<Rightarrow> nat" where
  "bodyB_of s = body (colliders s (colliderB (this s)))"

section \<open>The Box strategy\<close>

text \<open>\<open>_applyBoxImpulse(bodyA, bodyB, mtv)\<close>, lines 57 to 80.\<close>

definition applyBoxImpulse :: "Env \<Rightarrow> nat \<Rightarrow> nat \<Rightarrow> Vector \<Rightarrow> World \<Rightarrow> World" where
  "applyBoxImpulse env bodyA bodyB m0 s =
     (if collisionType (bodies s bodyA) = Active \<and> collisionType (bodies s bodyB) \<noteq> Passive then
        let m = (if collisionType (bodies s bodyA) = Active \<and> collisionType (bodies s bodyB) = Active
                 then Vector_scale m0 (1 / 2) else m0);
            s1 = set_pos bodyA (Vector (vx (pos (bodies s bodyA))) (vy (pos (bodies s bodyA)) + vy m)) s;
            s2 = set_pos bodyA (Vector (vx (pos (bodies s1 bodyA)) + vx m) (vy (pos (bodies s1 bodyA)))) s1;
            mtvDir = Vector_normalize (normalizeZero env) m;
            s3 = (if Vector_dot mtvDir (vel (bodies s2 bodyA)) < 0 then
                    let velAdj = Vector_scale mtvDir (Vector_dot mtvDir (Vector_negate (vel (bodies s2 bodyA))))
                    in set_vel bodyA (Vector_add (vel (bodies s2 bodyA)) velAdj) s2
                  else s2)
        in emit (collider (bodies s3 bodyA)) ''postcollision''
             (PostCollisionEvent (collider (bodies s3 bodyA)) (collider (bodies s3 bodyB))
                (getSideFromVector env m) m) s3
      else s)"

text \<open>\<open>_resolveBoxCollision()\<close>, lines 82 to 93.\<close>

definition resolveBoxCollision :: "Env \<Rightarrow> World \<Rightarrow> World" where
  "resolveBoxCollision env s =
     (let bodyA = bodyA_of s;
          bodyB = bodyB_of s;
          side = getSideFromVector env (mtv (this s));
          m = Vector_negate (mtv (this s));
          s1 = emit (colliderA (this s)) ''precollision''
                 (PreCollisionEvent (collider (bodies s bodyA)) (collider (bodies s bodyB)) side m) s;
          s2 = emit (colliderB (this s1)) ''precollision''
                 (PreCollisionEvent (collider (bodies s1 bodyB)) (collider (bodies s1 bodyA))
                    (getOppositeSide env side) (Vector_negate m)) s1;
          s3 = applyBoxImpulse env bodyA bodyB m s2
      in applyBoxImpulse env bodyB bodyA (Vector_negate m) s3)"

section \<open>The RigidBody strategy\<close>

text \<open>
  The local variables of \<open>_resolveRigidBodyCollision\<close>, lines 119 to 146, one definition
  for each \<open>var\<close>. All of them are computed before the first write to a body.
\<close>

definition rb_invMassA :: "World \<Rightarrow> real" where
  "rb_invMassA s =
     (if collisionType (bodies s (bodyA_of s)) = Fixed then 0
      else 1 / mass (colliders s (collider (bodies s (bodyA_of s)))))"

definition rb_invMassB :: "World \<Rightarrow> real" where
  "rb_invMassB s =
     (if collisionType (bodies s (bodyB_of s)) = Fixed then 0
      else 1 / mass (colliders s (collider (bodies s (bodyB_of s)))))"

definition rb_invMoiA :: "World \<Rightarrow> real" where
  "rb_invMoiA s =
     (if collisionType (bodies s (bodyA_of s)) = Fixed then 0
      else 1 / moi (colliders s (collider (bodies s (bodyA_of s)))))"

definition rb_invMoiB :: "World \<Rightarrow> real" where
  "rb_invMoiB s =
     (if collisionType (bodies s (bodyB_of s)) = Fixed then 0
      else 1 / moi (colliders s (collider (bodies s (bodyB_of s)))))"

definition rb_coefRestitution :: "World \<Rightarrow> real" where
  "rb_coefRestitution s =
     min (restitution (colliders s (collider (bodies s (bodyA_of s)))))
         (restitution (colliders s (collider (bodies s (bodyB_of s)))))"

definition rb_coefFriction :: "World \<Rightarrow> real" where
  "rb_coefFriction s =
     min (friction (colliders s (collider (bodies s (bodyA_of s)))))
         (friction (colliders s (collider (bodies s (bodyB_of s)))))"

definition rb_normal :: "Env \<Rightarrow> World \<Rightarrow> Vector" where
  "rb_normal env s = Vector_normalize (normalizeZero env) (normal (this s))"

definition rb_tangent :: "Env \<Rightarrow> World \<Rightarrow> Vector" where
  "rb_tangent env s = Vector_normalize (normalizeZero env) (Vector_normal (rb_normal env s))"

definition rb_ra :: "World \<Rightarrow> Vector" where
  "rb_ra s = Vector_sub (point (this s)) (center (colliders s (colliderA (this s))))"

definition rb_rb :: "World \<Rightarrow> Vector" where
  "rb_rb s = Vector_sub (point (this s)) (center (colliders s (colliderB (this s))))"

definition rb_rv :: "World \<Rightarrow> Vector" where
  "rb_rv s =
     Vector_sub
       (Vector_add (vel (bodies s (bodyB_of s)))
          (Vector_cross_num (rb_rb s) (- rx (bodies s (bodyB_of s)))))
       (Vector_sub (vel (bodies s (bodyA_of s)))
          (Vector_cross_num (rb_ra s) (rx (bodies s (bodyA_of s)))))"

definition rb_rvNormal :: "Env \<Rightarrow> World \<Rightarrow> real" where
  "rb_rvNormal env s = Vector_dot (rb_rv s) (rb_normal env s)"

definition rb_rvTangent :: "Env \<Rightarrow> World \<Rightarrow> real" where
  "rb_rvTangent env s = Vector_dot (rb_rv s) (rb_tangent env s)"

definition rb_raTangent :: "Env \<Rightarrow> World \<Rightarrow> real" where
  "rb_raTangent env s = Vector_dot (rb_ra s) (rb_tangent env s)"

definition rb_raNormal :: "Env \<Rightarrow> World \<Rightarrow> real" where
  "rb_raNormal env s = Vector_dot (rb_ra s) (rb_normal env s)"

definition rb_rbTangent :: "Env \<Rightarrow> World \<Rightarrow> real" where
  "rb_rbTangent env s = Vector_dot (rb_rb s) (rb_tangent env s)"

definition rb_rbNormal :: "Env \<Rightarrow> World \<Rightarrow> real" where
  "rb_rbNormal env s = Vector_dot (rb_rb s) (rb_normal env s)"

text \<open>The normal impulse, lines 155 and 156.\<close>

definition rb_impulse :: "Env \<Rightarrow> World \<Rightarrow> real" where
  "rb_impulse env s =
     - ((1 + rb_coefRestitution s) * rb_rvNormal env s) /
       (rb_invMassA s + rb_invMassB s
        + rb_invMoiA s * rb_raTangent env s * rb_raTangent env s
        + rb_invMoiB s * rb_rbTangent env s * rb_rbTangent env s)"

text \<open>The locals of the friction step, lines 190 to 200.\<close>

definition rb_t :: "Env \<Rightarrow> World \<Rightarrow> Vector" where
  "rb_t env s =
     Vector_normalize (normalizeZero env)
       (Vector_sub (rb_rv s) (Vector_scale (rb_normal env s) (Vector_dot (rb_rv s) (rb_normal env s))))"

definition rb_jt :: "Env \<Rightarrow> World \<Rightarrow> real" where
  "rb_jt env s =
     Vector_dot (rb_rv s) (rb_t env s) /
       (rb_invMassA s + rb_invMassB s
        + rb_raNormal env s * rb_raNormal env s * rb_invMoiA s
        + rb_rbNormal env s * rb_rbNormal env s * rb_invMoiB s)"

definition rb_frictionImpulse :: "Env \<Rightarrow> World \<Rightarrow> Vector" where
  "rb_frictionImpulse env s =
     (if \<bar>rb_jt env s\<bar> \<le> rb_impulse env s * rb_coefFriction s
      then Vector_negate (Vector_scale (rb_t env s) (rb_jt env s))
      else Vector_scale (rb_t env s) (- rb_impulse env s * rb_coefFriction s))"

text \<open>
  The normal impulse applied to the bodies, lines 158 to 182. \<open>s0\<close> is the state the
  locals were computed in, \<open>s\<close> the state the statements run in.
\<close>

definition rb_applyImpulse :: "Env \<Rightarrow> World \<Rightarrow> World \<Rightarrow> World" where
  "rb_applyImpulse env s0 s =
     (let bodyA = bodyA_of s0; bodyB = bodyB_of s0;
          m = mtv (this s0); n = rb_normal env s0; impulse = rb_impulse env s0;
          invMassA = rb_invMassA s0; invMassB = rb_invMassB s0;
          invMoiA = rb_invMoiA s0; invMoiB = rb_invMoiB s0;
          ra = rb_ra s0; rb = rb_rb s0
      in
      if collisionType (bodies s bodyA) = Fixed then
        let s1 = set_vel bodyB (Vector_add (vel (bodies s bodyB)) (Vector_scale n (impulse * invMassB))) s;
            s2 = (if allowRigidBodyRotation env
                  then set_rx bodyB (rx (bodies s1 bodyB) - impulse * invMoiB * - Vector_cross rb n) s1
                  else s1)
        in addMtv bodyB m s2
      else if collisionType (bodies s bodyB) = Fixed then
        let s1 = set_vel bodyA (Vector_sub (vel (bodies s bodyA)) (Vector_scale n (impulse * invMassA))) s;
            s2 = (if allowRigidBodyRotation env
                  then set_rx bodyA (rx (bodies s1 bodyA) + impulse * invMoiA * - Vector_cross ra n) s1
                  else s1)
        in addMtv bodyA (Vector_negate m) s2
      else
        let s1 = set_vel bodyB (Vector_add (vel (bodies s bodyB)) (Vector_scale n (impulse * invMassB))) s;
            s2 = set_vel bodyA (Vector_sub (vel (bodies s1 bodyA)) (Vector_scale n (impulse * invMassA))) s1;
            s3 = (if allowRigidBodyRotation env
                  then let s2' = set_rx bodyB (rx (bodies s2 bodyB) - impulse * invMoiB * - Vector_cross rb n) s2
                       in set_rx bodyA (rx (bodies s2' bodyA) + impulse * invMoiA * - Vector_cross ra n) s2'
                  else s2);
            s4 = addMtv bodyB (Vector_scale m (1 / 2)) s3
        in addMtv bodyA (Vector_scale m (- (1 / 2))) s4)"

text \<open>The friction impulse applied to the bodies, lines 185 to 225.\<close>

definition rb_applyFriction :: "Env \<Rightarrow> World \<Rightarrow> World \<Rightarrow> World" where
  "rb_applyFriction env s0 s =
     (if rb_coefFriction s0 \<noteq> 0 \<and> rb_rvTangent env s0 \<noteq> 0 then
        let bodyA = bodyA_of s0; bodyB = bodyB_of s0;
            t = rb_t env s0; frictionImpulse = rb_frictionImpulse env s0;
            invMassA = rb_invMassA s0; invMassB = rb_invMassB s0;
            invMoiA = rb_invMoiA s0; invMoiB = rb_invMoiB s0;
            ra = rb_ra s0; rb = rb_rb s0
        in
        if collisionType (bodies s bodyA) = Fixed then
          let s1 = set_vel bodyB (Vector_add (vel (bodies s bodyB)) (Vector_scale frictionImpulse invMassB)) s
          in if allowRigidBodyRotation env
             then set_rx bodyB (rx (bodies s1 bodyB) + Vector_dot frictionImpulse t * invMoiB * Vector_cross rb t) s1
             else s1
        else if collisionType (bodies s bodyB) = Fixed then
          let s1 = set_vel bodyA (Vector_sub (vel (bodies s bodyA)) (Vector_scale frictionImpulse invMassA)) s
          in if allowRigidBodyRotation env
             then set_rx bodyA (rx (bodies s1 bodyA) - Vector_dot frictionImpulse t * invMoiA * Vector_cross ra t) s1
             else s1
        else
          let s1 = set_vel bodyB (Vector_add (vel (bodies s bodyB)) (Vector_scale frictionImpulse invMassB)) s;
              s2 = set_vel bodyA (Vector_sub (vel (bodies s1 bodyA)) (Vector_scale frictionImpulse invMassA)) s1
          in if allowRigidBodyRotation env
             then let s3 = set_rx bodyB (rx (bodies s2 bodyB) + Vector_dot frictionImpulse t * invMoiB * Vector_cross rb t) s2
                  in set_rx bodyA (rx (bodies s3 bodyA) - Vector_dot frictionImpulse t * invMoiA * Vector_cross ra t) s3
             else s2
      else s)"

text \<open>\<open>_resolveRigidBodyCollision()\<close>, lines 95 to 232.\<close>

definition resolveRigidBodyCollision :: "Env \<Rightarrow> World \<Rightarrow> World" where
  "resolveRigidBodyCollision env s =
     (let bodyA = bodyA_of s; bodyB = bodyB_of s
      in
      if bodyA = bodyB then s
      else
        let side = getSideFromVector env (mtv (this s));
            s1 = emit (colliderA (this s)) ''precollision''
                   (PreCollisionEvent (colliderA (this s)) (colliderB (this s)) side (mtv (this s))) s;
            s2 = emit (colliderB (this s1)) ''precollision''
                   (PreCollisionEvent (colliderB (this s1)) (colliderA (this s1))
                      (getOppositeSide env side) (Vector_negate (mtv (this s1)))) s1
        in
        if collisionType (bodies s2 bodyA) = Passive \<or> collisionType (bodies s2 bodyB) = Passive then s2
        else if rb_rvNormal env s2 > 0 then s2
        else
          let s3 = rb_applyImpulse env s2 s2;
              s4 = rb_applyFriction env s2 s3;
              s5 = emit (colliderA (this s4)) ''postcollision''
                     (PostCollisionEvent (colliderA (this s4)) (colliderB (this s4)) side (mtv (this s4))) s4
          in emit (colliderB (this s5)) ''postcollision''
               (PostCollisionEvent (colliderB (this s5)) (colliderA (this s5))
                  (getOppositeSide env side) (Vector_negate (mtv (this s5)))) s5)"

section \<open>resolve\<close>

text \<open>\<open>resolve(strategy)\<close>, lines 47 to 55.\<close>

definition resolve :: "Env \<Rightarrow> CollisionResolutionStrategy \<Rightarrow> World \<Rightarrow> Outcome \<times> World" where
  "resolve env strategy s =
     (if strategy = RigidBody then (Returned, resolveRigidBodyCollision env s)
      else if strategy = Box then (Returned, resolveBoxCollision env s)
      else (Threw ''Unknown collision resolution strategy'', s))"

section \<open>The contact's vectors as shared objects\<close>

text \<open>
  The constructor of the contact stores the references it is given (lines 39 to 45), so a
  field of the contact may be the very \<open>Vector\<close> object that is the position of a body.
  The positions are the only vectors the source writes in place (lines 65 and 66); every
  other vector it assigns is a new one. A field of the contact therefore refers either to
  an object nothing writes to, given by its value, or to the position of the body at an
  address.
\<close>

datatype VectorRef = OwnVector Vector | PosOf nat

record ContactRefs =
  mtvRef :: VectorRef
  pointRef :: VectorRef
  normalRef :: VectorRef

fun readVector :: "World \<Rightarrow> VectorRef \<Rightarrow> Vector" where
  "readVector s (OwnVector v) = v"
| "readVector s (PosOf b) = pos (bodies s b)"

text \<open>
  The contact as its fields read in a state. In a state of the shared model the component
  \<open>this\<close> holds that reading: \<open>readContact r s = this s\<close>.
\<close>

definition readContact :: "ContactRefs \<Rightarrow> World \<Rightarrow> CollisionContact" where
  "readContact r s =
     (this s)\<lparr>mtv := readVector s (mtvRef r), point := readVector s (pointRef r),
              normal := readVector s (normalRef r)\<rparr>"

text \<open>
  A write to a coordinate of \<open>bodyA.pos\<close>, lines 65 and 66: the position changes, and
  with it what every field of the contact that is this object reads.
\<close>

definition set_pos_shared :: "ContactRefs \<Rightarrow> nat \<Rightarrow> Vector \<Rightarrow> World \<Rightarrow> World" where
  "set_pos_shared r b v s = (let s1 = set_pos b v s in s1\<lparr>this := readContact r s1\<rparr>)"

text \<open>
  \<open>_applyBoxImpulse\<close> and \<open>_resolveBoxCollision\<close> once more, lines 57 to 93, with the
  writes to the position as writes to a shared object. The local \<open>mtv\<close> is a new vector
  (the result of \<open>negate\<close> or \<open>scale\<close>), so the writes do not change it.
\<close>

definition applyBoxImpulse_shared ::
  "ContactRefs \<Rightarrow> Env \<Rightarrow> nat \<Rightarrow> nat \<Rightarrow> Vector \<Rightarrow> World \<Rightarrow> World" where
  "applyBoxImpulse_shared r env bodyA bodyB m0 s =
     (if collisionType (bodies s bodyA) = Active \<and> collisionType (bodies s bodyB) \<noteq> Passive then
        let m = (if collisionType (bodies s bodyA) = Active \<and> collisionType (bodies s bodyB) = Active
                 then Vector_scale m0 (1 / 2) else m0);
            s1 = set_pos_shared r bodyA
                   (Vector (vx (pos (bodies s bodyA))) (vy (pos (bodies s bodyA)) + vy m)) s;
            s2 = set_pos_shared r bodyA
                   (Vector (vx (pos (bodies s1 bodyA)) + vx m) (vy (pos (bodies s1 bodyA)))) s1;
            mtvDir = Vector_normalize (normalizeZero env) m;
            s3 = (if Vector_dot mtvDir (vel (bodies s2 bodyA)) < 0 then
                    let velAdj = Vector_scale mtvDir (Vector_dot mtvDir (Vector_negate (vel (bodies s2 bodyA))))
                    in set_vel bodyA (Vector_add (vel (bodies s2 bodyA)) velAdj) s2
                  else s2)
        in emit (collider (bodies s3 bodyA)) ''postcollision''
             (PostCollisionEvent (collider (bodies s3 bodyA)) (collider (bodies s3 bodyB))
                (getSideFromVector env m) m) s3
      else s)"

definition resolveBoxCollision_shared :: "ContactRefs \<Rightarrow> Env \<Rightarrow> World \<Rightarrow> World" where
  "resolveBoxCollision_shared r env s =
     (let bodyA = bodyA_of s;
          bodyB = bodyB_of s;
          side = getSideFromVector env (mtv (this s));
          m = Vector_negate (mtv (this s));
          s1 = emit (colliderA (this s)) ''precollision''
                 (PreCollisionEvent (collider (bodies s bodyA)) (collider (bodies s bodyB)) side m) s;
          s2 = emit (colliderB (this s1)) ''precollision''
                 (PreCollisionEvent (collider (bodies s1 bodyB)) (collider (bodies s1 bodyA))
                    (getOppositeSide env side) (Vector_negate m)) s1;
          s3 = applyBoxImpulse_shared r env bodyA bodyB m s2
      in applyBoxImpulse_shared r env bodyB bodyA (Vector_negate m) s3)"

text \<open>
  \<open>resolve\<close>, lines 47 to 55. \<open>_resolveRigidBodyCollision\<close> writes no vector in place:
  it assigns new vectors to \<open>vel\<close> and numbers to \<open>rx\<close> and calls \<open>addMtv\<close>, so it runs
  as before on the contact as it reads at entry.
\<close>

definition resolve_shared ::
  "ContactRefs \<Rightarrow> Env \<Rightarrow> CollisionResolutionStrategy \<Rightarrow> World \<Rightarrow> Outcome \<times> World" where
  "resolve_shared r env strategy s =
     (if strategy = RigidBody then (Returned, resolveRigidBodyCollision env s)
      else if strategy = Box then (Returned, resolveBoxCollision_shared r env s)
      else (Threw ''Unknown collision resolution strategy'', s))"

text \<open>No field of the contact is the position object of one of the contact's two bodies.\<close>

definition shares_no_position :: "ContactRefs \<Rightarrow> World \<Rightarrow> bool" where
  "shares_no_position r s =
     (mtvRef r \<noteq> PosOf (bodyA_of s) \<and> mtvRef r \<noteq> PosOf (bodyB_of s)
    \<and> pointRef r \<noteq> PosOf (bodyA_of s) \<and> pointRef r \<noteq> PosOf (bodyB_of s)
    \<and> normalRef r \<noteq> PosOf (bodyA_of s) \<and> normalRef r \<noteq> PosOf (bodyB_of s))"

section \<open>Notions used to state the properties\<close>

text \<open>
  The friction impulse a resolution applies: \<open>frictionImpulse\<close> when the friction step
  is entered (line 185), nothing otherwise.
\<close>

definition rb_appliedFriction :: "Env \<Rightarrow> World \<Rightarrow> Vector" where
  "rb_appliedFriction env s =
     (if rb_coefFriction s \<noteq> 0 \<and> rb_rvTangent env s \<noteq> 0 then rb_frictionImpulse env s
      else Vector 0 0)"

text \<open>
  The data model of the spec: a collider has positive mass and moment of inertia (they are
  divisors unless the body is Fixed) and a friction coefficient that is not negative; two
  Fixed bodies, whose pair has no finite effective mass, are not resolved against each other.
\<close>

definition rb_wellformed :: "World \<Rightarrow> bool" where
  "rb_wellformed s =
     (let bodyA = bodies s (bodyA_of s); bodyB = bodies s (bodyB_of s)
      in (collisionType bodyA = Fixed \<or>
            0 < mass (colliders s (collider bodyA)) \<and> 0 < moi (colliders s (collider bodyA)))
       \<and> (collisionType bodyB = Fixed \<or>
            0 < mass (colliders s (collider bodyB)) \<and> 0 < moi (colliders s (collider bodyB)))
       \<and> \<not> (collisionType bodyA = Fixed \<and> collisionType bodyB = Fixed)
       \<and> 0 \<le> friction (colliders s (collider bodyA))
       \<and> 0 \<le> friction (colliders s (collider bodyB)))"

text \<open>
  The impulse formula in the words of the spec, to be compared with \<open>rb_impulse\<close>: the
  inverse of a mass or of a moment of inertia is "0 for Fixed" and the reciprocal otherwise,
  and
  \<open>impulse = -(1 + restitution) * rvNormal /
     (invMassA + invMassB + invMoiA*raTangent\<^sup>2 + invMoiB*rbTangent\<^sup>2)\<close>.
\<close>

definition spec_inverse :: "CollisionType \<Rightarrow> real \<Rightarrow> real" where
  "spec_inverse ct q = (if ct = Fixed then 0 else 1 / q)"

definition spec_impulse ::
  "real \<Rightarrow> real \<Rightarrow> real \<Rightarrow> real \<Rightarrow> real \<Rightarrow> real \<Rightarrow> real \<Rightarrow> real \<Rightarrow> real" where
  "spec_impulse e rvNormal invMassA invMassB invMoiA invMoiB raTangent rbTangent =
     - (1 + e) * rvNormal /
       (invMassA + invMassB + invMoiA * raTangent\<^sup>2 + invMoiB * rbTangent\<^sup>2)"

section \<open>Example contacts\<close>

text \<open>
  An environment in which \<open>getSideFromVector\<close> reads the dominant axis of a vector and
  \<open>normalize\<close> answers \<open>(0, 1)\<close> for the zero vector, and a contact between body 0
  at the origin and body 1 at \<open>(3, 0)\<close>: they overlap by 2 along the x axis and touch at
  \<open>(1, 0)\<close>. Kinematic classes, velocities and the friction coefficient vary.
\<close>

definition exampleSide :: "Vector \<Rightarrow> Side" where
  "exampleSide v =
     (if \<bar>vx v\<bar> > \<bar>vy v\<bar> then (if vx v < 0 then Left else Right)
      else (if vy v < 0 then Top else Bottom))"

definition exampleOpposite :: "Side \<Rightarrow> Side" where
  "exampleOpposite sd =
     (case sd of Top \<Rightarrow> Bottom | Bottom \<Rightarrow> Top | Left \<Rightarrow> Right | Right \<Rightarrow> Left
      | SideNone \<Rightarrow> SideNone)"

definition exampleEnv :: Env where
  "exampleEnv =
     \<lparr>allowRigidBodyRotation = True, getSideFromVector = exampleSide,
      getOppositeSide = exampleOpposite, normalizeZero = Vector 0 1\<rparr>"

definition exampleContact :: CollisionContact where
  "exampleContact =
     \<lparr>colliderA = 0, colliderB = 1, mtv = Vector 2 0, point = Vector 1 0, normal = Vector 1 0\<rparr>"

definition exampleWorld ::
  "CollisionType \<Rightarrow> Vector \<Rightarrow> CollisionType \<Rightarrow> Vector \<Rightarrow> real \<Rightarrow> World" where
  "exampleWorld ctA velA ctB velB fr =
     \<lparr>this = exampleContact,
      bodies = (\<lambda>i. if i = 0
                 then \<lparr>pos = Vector 0 0, vel = velA, rx = 0, collisionType = ctA,
                       totalMtv = Vector 0 0, collider = 0\<rparr>
                 else \<lparr>pos = Vector 3 0, vel = velB, rx = 0, collisionType = ctB,
                       totalMtv = Vector 0 0, collider = 1\<rparr>),
      colliders = (\<lambda>i. if i = 0
                 then \<lparr>body = 0, mass = 1, moi = 1, restitution = 1 / 2, friction = fr,
                       center = Vector 0 0\<rparr>
                 else \<lparr>body = 1, mass = 2, moi = 1, restitution = 1, friction = fr,
                       center = Vector 3 0\<rparr>),
      emitted = []\<rparr>"

text \<open>A contact of body 0, moving to the right, with itself.\<close>

definition selfPairWorld :: World where
  "selfPairWorld =
     (exampleWorld Active (Vector 1 0) Active (Vector 0 0) 0)
       \<lparr>this := exampleContact\<lparr>colliderB := 0\<rparr>\<rparr>"

text \<open>
  A contact off the axis between the centres, at \<open>(1, 1)\<close>, between two spinning Active
  bodies whose colliders differ in mass, moment of inertia, restitution and friction.
\<close>

definition spinWorld :: World where
  "spinWorld =
     \<lparr>this = \<lparr>colliderA = 0, colliderB = 1, mtv = Vector 2 0, point = Vector 1 1,
              normal = Vector 1 0\<rparr>,
      bodies = (\<lambda>i. if i = 0
                 then \<lparr>pos = Vector 0 0, vel = Vector 0 0, rx = 1, collisionType = Active,
                       totalMtv = Vector 0 0, collider = 0\<rparr>
                 else \<lparr>pos = Vector 3 0, vel = Vector (- 1) 4, rx = 2, collisionType = Active,
                       totalMtv = Vector 0 0, collider = 1\<rparr>),
      colliders = (\<lambda>i. if i = 0
                 then \<lparr>body = 0, mass = 1, moi = 2, restitution = 1 / 2, friction = 1 / 2,
                       center = Vector 0 0\<rparr>
                 else \<lparr>body = 1, mass = 2, moi = 4, restitution = 1, friction = 1 / 8,
                       center = Vector 3 0\<rparr>),
      emitted = []\<rparr>"

text \<open>
  References for the example contact: every vector an object of the contact's own, and the
  contact point the position object of body 0, which then stands at the contact point
  \<open>(0, 0)\<close>.
\<close>

definition ownRefs :: ContactRefs where
  "ownRefs = \<lparr>mtvRef = OwnVector (Vector 2 0), pointRef = OwnVector (Vector 1 0),
              normalRef = OwnVector (Vector 1 0)\<rparr>"

definition pointAtBodyA :: ContactRefs where
  "pointAtBodyA = \<lparr>mtvRef = OwnVector (Vector 2 0), pointRef = PosOf 0,
                   normalRef = OwnVector (Vector 1 0)\<rparr>"

definition pointAtBodyAWorld :: World where
  "pointAtBodyAWorld =
     (exampleWorld Active (Vector 0 0) Fixed (Vector 0 0) 0)
       \<lparr>this := exampleContact\<lparr>point := Vector 0 0\<rparr>\<rparr>"

section \<open>Properties\<close>

text \<open>
  From here on, facts about the definitions above. Claims of the specification are named
  by their identifiers, \<open>C1\<close> to \<open>C10\<close>.
\<close>

subsection \<open>What each statement leaves alone\<close>

lemma emit_fields [simp]:
  "bodies (emit t n e s) = bodies s"
  "colliders (emit t n e s) = colliders s"
  "this (emit t n e s) = this s"
  "emitted (emit t n e s) = emitted s @ [(t, n, e)]"
  by (simp_all add: emit_def)

lemma set_pos_fields [simp]:
  "bodies (set_pos b v s) = (bodies s)(b := (bodies s b)\<lparr>pos := v\<rparr>)"
  "colliders (set_pos b v s) = colliders s"
  "this (set_pos b v s) = this s"
  "emitted (set_pos b v s) = emitted s"
  by (simp_all add: set_pos_def)

lemma set_vel_fields [simp]:
  "bodies (set_vel b v s) = (bodies s)(b := (bodies s b)\<lparr>vel := v\<rparr>)"
  "colliders (set_vel b v s) = colliders s"
  "this (set_vel b v s) = this s"
  "emitted (set_vel b v s) = emitted s"
  by (simp_all add: set_vel_def)

lemma set_rx_fields [simp]:
  "bodies (set_rx b r s) = (bodies s)(b := (bodies s b)\<lparr>rx := r\<rparr>)"
  "colliders (set_rx b r s) = colliders s"
  "this (set_rx b r s) = this s"
  "emitted (set_rx b r s) = emitted s"
  by (simp_all add: set_rx_def)

lemma addMtv_fields [simp]:
  "bodies (addMtv b m s) = (bodies s)(b := (bodies s b)\<lparr>totalMtv := Vector_add (totalMtv (bodies s b)) m\<rparr>)"
  "colliders (addMtv b m s) = colliders s"
  "this (addMtv b m s) = this s"
  "emitted (addMtv b m s) = emitted s"
  by (simp_all add: addMtv_def)

lemma applyBoxImpulse_this [simp]: "this (applyBoxImpulse env a b m s) = this s"
  by (simp add: applyBoxImpulse_def Let_def)

lemma applyBoxImpulse_colliders [simp]: "colliders (applyBoxImpulse env a b m s) = colliders s"
  by (simp add: applyBoxImpulse_def Let_def)

lemma resolveBoxCollision_this [simp]: "this (resolveBoxCollision env s) = this s"
  by (simp add: resolveBoxCollision_def Let_def)

lemma rb_applyImpulse_this [simp]: "this (rb_applyImpulse env s0 s) = this s"
  by (simp add: rb_applyImpulse_def Let_def)

lemma rb_applyFriction_this [simp]: "this (rb_applyFriction env s0 s) = this s"
  by (simp add: rb_applyFriction_def Let_def)

lemma resolveRigidBodyCollision_this [simp]: "this (resolveRigidBodyCollision env s) = this s"
  by (simp add: resolveRigidBodyCollision_def Let_def)

lemma resolve_this:
  "this (snd (resolve env strategy s)) = this s"
  by (simp add: resolve_def)

text \<open>
  Claim C9. For a strategy that is neither \<open>RigidBody\<close> nor \<open>Box\<close>, \<open>resolve\<close> throws
  and the state is the one it was called in: no body is written, no event is emitted. For
  \<open>RigidBody\<close> and for \<open>Box\<close> it returns.
\<close>

theorem resolve_unknown_strategy:
  "(strategy \<noteq> RigidBody \<and> strategy \<noteq> Box \<longrightarrow>
      resolve env strategy s = (Threw ''Unknown collision resolution strategy'', s))
   \<and> fst (resolve env RigidBody s) = Returned
   \<and> fst (resolve env Box s) = Returned"
  by (simp add: resolve_def)

subsection \<open>Lengths and unit vectors\<close>

lemma Vector_distance_nonneg: "0 \<le> Vector_distance v"
  by (simp add: Vector_distance_def)

lemma Vector_distance_pos: "v \<noteq> Vector 0 0 \<Longrightarrow> 0 < Vector_distance v"
proof -
  assume nz: "v \<noteq> Vector 0 0"
  obtain a b where v: "v = Vector a b" by (cases v)
  from nz v have "a \<noteq> 0 \<or> b \<noteq> 0" by auto
  then have "0 < a * a + b * b"
    by (metis add_pos_nonneg add_nonneg_pos zero_le_square not_real_square_gt_zero)
  then show ?thesis by (simp add: Vector_distance_def v)
qed

lemma Vector_distance_scale: "Vector_distance (Vector_scale v k) = \<bar>k\<bar> * Vector_distance v"
proof -
  obtain a b where v: "v = Vector a b" by (cases v)
  have "a * k * (a * k) + b * k * (b * k) = k\<^sup>2 * (a * a + b * b)"
    by (simp add: power2_eq_square algebra_simps)
  then have "sqrt (a * k * (a * k) + b * k * (b * k)) = \<bar>k\<bar> * sqrt (a * a + b * b)"
    by (simp add: real_sqrt_mult)
  then show ?thesis by (simp add: Vector_distance_def Vector_scale_def v)
qed

lemma Vector_distance_negate: "Vector_distance (Vector_negate v) = Vector_distance v"
  by (simp add: Vector_distance_def Vector_negate_def)

lemma Vector_normalize_nonzero:
  "v \<noteq> Vector 0 0 \<Longrightarrow> Vector_normalize z v = Vector_scale v (1 / Vector_distance v)"
  using Vector_distance_pos [of v]
  by (simp add: Vector_normalize_def Vector_scale_def Let_def)

lemma Vector_normalize_unit:
  "v \<noteq> Vector 0 0 \<Longrightarrow> Vector_distance (Vector_normalize z v) = 1"
  using Vector_distance_pos [of v]
  by (simp add: Vector_normalize_nonzero Vector_distance_scale)

lemma Vector_unit_square:
  "Vector_distance v = 1 \<Longrightarrow> vx v * vx v + vy v * vy v = 1"
proof -
  assume "Vector_distance v = 1"
  then have "sqrt (vx v * vx v + vy v * vy v) = 1" by (simp add: Vector_distance_def)
  then show ?thesis by simp
qed

lemma Vector_normal_unit:
  "Vector_distance v = 1 \<Longrightarrow> Vector_normalize z (Vector_normal v) = Vector_normal v"
proof -
  assume u: "Vector_distance v = 1"
  have "Vector_distance (Vector_normal v) = Vector_distance v"
    by (simp add: Vector_distance_def Vector_normal_def add.commute)
  with u show ?thesis
    by (simp add: Vector_normalize_def Let_def Vector_normal_def)
qed

lemma tangential_part_nonzero:
  assumes u: "Vector_distance n = 1"
    and t: "Vector_dot r (Vector_normal n) \<noteq> 0"
  shows "Vector_sub r (Vector_scale n (Vector_dot r n)) \<noteq> Vector 0 0"
proof
  assume z: "Vector_sub r (Vector_scale n (Vector_dot r n)) = Vector 0 0"
  define c where "c = Vector_dot r n"
  from z have rx: "vx r = vx n * c" and ry: "vy r = vy n * c"
    by (simp_all add: Vector_sub_def Vector_scale_def c_def)
  have "Vector_dot r (Vector_normal n) = 0"
    by (simp add: Vector_dot_def Vector_normal_def rx ry)
  with t show False by simp
qed

subsection \<open>The friction impulse stays inside the Coulomb cone\<close>

lemma rb_normal_unit:
  "normal (this s) \<noteq> Vector 0 0 \<Longrightarrow> Vector_distance (rb_normal env s) = 1"
  by (simp add: rb_normal_def Vector_normalize_unit)

lemma rb_tangent_eq:
  "normal (this s) \<noteq> Vector 0 0 \<Longrightarrow> rb_tangent env s = Vector_normal (rb_normal env s)"
  by (simp add: rb_tangent_def Vector_normal_unit rb_normal_unit)

lemma rb_t_unit:
  assumes "normal (this s) \<noteq> Vector 0 0" and "rb_rvTangent env s \<noteq> 0"
  shows "Vector_distance (rb_t env s) = 1"
proof -
  have "Vector_dot (rb_rv s) (Vector_normal (rb_normal env s)) \<noteq> 0"
    using assms by (simp add: rb_rvTangent_def rb_tangent_eq)
  then have "Vector_sub (rb_rv s) (Vector_scale (rb_normal env s) (Vector_dot (rb_rv s) (rb_normal env s)))
             \<noteq> Vector 0 0"
    using tangential_part_nonzero rb_normal_unit assms(1) by blast
  then show ?thesis by (simp add: rb_t_def Vector_normalize_unit)
qed

lemma Vector_normalize_le_one:
  "Vector_distance z \<le> 1 \<Longrightarrow> Vector_distance (Vector_normalize z v) \<le> 1"
  by (cases "v = Vector 0 0")
     (simp_all add: Vector_normalize_unit, simp add: Vector_normalize_def Vector_distance_def)

lemma rb_t_le_one:
  assumes "normal (this s) \<noteq> Vector 0 0 \<or> Vector_distance (normalizeZero env) \<le> 1"
    and "rb_rvTangent env s \<noteq> 0"
  shows "Vector_distance (rb_t env s) \<le> 1"
proof (cases "normal (this s) \<noteq> Vector 0 0")
  case True
  then show ?thesis using assms(2) by (simp add: rb_t_unit)
next
  case False
  with assms(1) have "Vector_distance (normalizeZero env) \<le> 1" by simp
  then show ?thesis by (simp add: rb_t_def Vector_normalize_le_one)
qed

text \<open>
  Claim C3. In a RigidBody resolution that reaches the friction step, that is, with the
  combined friction coefficient and the tangential relative velocity both nonzero, the
  length of the friction impulse is at most the absolute value of the normal impulse times
  the combined friction coefficient. The colliders are those of the data model (friction
  not negative, positive mass and moment of inertia). The contact normal is not the zero
  vector, so that it has a direction, or else \<open>normalize\<close> answers the zero vector with a
  vector no longer than a unit vector.
\<close>

theorem friction_impulse_bound:
  assumes wf: "rb_wellformed s"
    and n: "normal (this s) \<noteq> Vector 0 0 \<or> Vector_distance (normalizeZero env) \<le> 1"
    and cf: "rb_coefFriction s \<noteq> 0"
    and rt: "rb_rvTangent env s \<noteq> 0"
  shows "Vector_distance (rb_frictionImpulse env s) \<le> \<bar>rb_impulse env s\<bar> * rb_coefFriction s"
proof -
  have u: "Vector_distance (rb_t env s) \<le> 1" using n rt by (rule rb_t_le_one)
  have f: "0 \<le> rb_coefFriction s"
    using wf by (simp add: rb_wellformed_def rb_coefFriction_def Let_def)
  show ?thesis
  proof (cases "\<bar>rb_jt env s\<bar> \<le> rb_impulse env s * rb_coefFriction s")
    case True
    have "Vector_distance (rb_frictionImpulse env s) = \<bar>rb_jt env s\<bar> * Vector_distance (rb_t env s)"
      using True by (simp add: rb_frictionImpulse_def Vector_distance_negate Vector_distance_scale)
    also have "\<dots> \<le> \<bar>rb_jt env s\<bar> * 1"
      using u by (intro mult_left_mono) simp_all
    also have "\<dots> \<le> rb_impulse env s * rb_coefFriction s" using True by simp
    also have "\<dots> \<le> \<bar>rb_impulse env s\<bar> * rb_coefFriction s"
      using f by (simp add: mult_right_mono)
    finally show ?thesis .
  next
    case False
    have "Vector_distance (rb_frictionImpulse env s)
          = (\<bar>rb_impulse env s\<bar> * rb_coefFriction s) * Vector_distance (rb_t env s)"
      using False f by (simp add: rb_frictionImpulse_def Vector_distance_scale abs_mult)
    also have "\<dots> \<le> (\<bar>rb_impulse env s\<bar> * rb_coefFriction s) * 1"
      using u f by (intro mult_left_mono) simp_all
    finally show ?thesis by simp
  qed
qed

subsection \<open>The velocity adjustment of the Box impulse\<close>

lemma box_velocity_adjustment:
  assumes a: "collisionType (bodies s bodyA) = Active"
    and b: "collisionType (bodies s bodyB) \<noteq> Passive"
    and nz: "m0 \<noteq> Vector 0 0 \<or> Vector_distance (normalizeZero env) = 1"
    and d: "d = Vector_normalize (normalizeZero env)
                  (if collisionType (bodies s bodyB) = Active then Vector_scale m0 (1 / 2) else m0)"
    and v: "v = vel (bodies s bodyA)"
    and v': "v' = vel (bodies (applyBoxImpulse env bodyA bodyB m0 s) bodyA)"
  shows "(Vector_dot d v < 0 \<longrightarrow>
            Vector_dot v' d = 0 \<and> Vector_dot v' (Vector_normal d) = Vector_dot v (Vector_normal d))
       \<and> (0 \<le> Vector_dot d v \<longrightarrow> v' = v)"
proof -
  define m where "m = (if collisionType (bodies s bodyB) = Active then Vector_scale m0 (1 / 2) else m0)"
  have ud: "Vector_distance d = 1"
  proof (cases "m0 = Vector 0 0")
    case True
    then have "m = Vector 0 0" by (simp add: m_def Vector_scale_def)
    then have "d = normalizeZero env"
      using d by (simp add: m_def [symmetric] Vector_normalize_def Vector_distance_def)
    with True nz show ?thesis by simp
  next
    case False
    then have "m \<noteq> Vector 0 0"
      by (cases m0) (auto simp: m_def Vector_scale_def)
    then show ?thesis
      using d by (simp add: m_def [symmetric] Vector_normalize_unit)
  qed
  have u: "vx d * vx d + vy d * vy d = 1"
    using ud by (rule Vector_unit_square)
  have v'_eq: "v' = (if Vector_dot d v < 0
                     then Vector_add v (Vector_scale d (Vector_dot d (Vector_negate v))) else v)"
    using a b by (simp add: v' v d applyBoxImpulse_def Let_def)
  have along: "Vector_dot (Vector_add v (Vector_scale d (Vector_dot d (Vector_negate v)))) d
               = Vector_dot d v * (1 - (vx d * vx d + vy d * vy d))"
    by (simp add: Vector_dot_def Vector_add_def Vector_scale_def Vector_negate_def algebra_simps)
  have perp: "Vector_dot (Vector_add v (Vector_scale d (Vector_dot d (Vector_negate v)))) (Vector_normal d)
               = Vector_dot v (Vector_normal d)"
    by (simp add: Vector_dot_def Vector_add_def Vector_scale_def Vector_negate_def Vector_normal_def
                  algebra_simps)
  show ?thesis
    using along perp by (simp add: v'_eq u)
qed

subsection \<open>Events do not change the locals of the RigidBody strategy\<close>

lemma rb_locals_emit [simp]:
  "bodyA_of (emit t n e s) = bodyA_of s"
  "bodyB_of (emit t n e s) = bodyB_of s"
  "rb_invMassA (emit t n e s) = rb_invMassA s"
  "rb_invMassB (emit t n e s) = rb_invMassB s"
  "rb_invMoiA (emit t n e s) = rb_invMoiA s"
  "rb_invMoiB (emit t n e s) = rb_invMoiB s"
  "rb_coefRestitution (emit t n e s) = rb_coefRestitution s"
  "rb_coefFriction (emit t n e s) = rb_coefFriction s"
  "rb_normal env (emit t n e s) = rb_normal env s"
  "rb_tangent env (emit t n e s) = rb_tangent env s"
  "rb_ra (emit t n e s) = rb_ra s"
  "rb_rb (emit t n e s) = rb_rb s"
  "rb_rv (emit t n e s) = rb_rv s"
  by (simp_all add: bodyA_of_def bodyB_of_def rb_invMassA_def rb_invMassB_def rb_invMoiA_def
        rb_invMoiB_def rb_coefRestitution_def rb_coefFriction_def rb_normal_def rb_tangent_def
        rb_ra_def rb_rb_def rb_rv_def)

lemma rb_projections_emit [simp]:
  "rb_rvNormal env (emit t n e s) = rb_rvNormal env s"
  "rb_rvTangent env (emit t n e s) = rb_rvTangent env s"
  "rb_raTangent env (emit t n e s) = rb_raTangent env s"
  "rb_raNormal env (emit t n e s) = rb_raNormal env s"
  "rb_rbTangent env (emit t n e s) = rb_rbTangent env s"
  "rb_rbNormal env (emit t n e s) = rb_rbNormal env s"
  by (simp_all add: rb_rvNormal_def rb_rvTangent_def rb_raTangent_def rb_raNormal_def
        rb_rbTangent_def rb_rbNormal_def)

lemma rb_impulses_emit [simp]:
  "rb_impulse env (emit t n e s) = rb_impulse env s"
  "rb_t env (emit t n e s) = rb_t env s"
  "rb_jt env (emit t n e s) = rb_jt env s"
  "rb_frictionImpulse env (emit t n e s) = rb_frictionImpulse env s"
  by (simp_all add: rb_impulse_def rb_t_def rb_jt_def rb_frictionImpulse_def)

lemma rb_apply_emit [simp]:
  "rb_applyImpulse env (emit t n e s0) s = rb_applyImpulse env s0 s"
  "rb_applyFriction env (emit t n e s0) s = rb_applyFriction env s0 s"
  by (simp_all add: rb_applyImpulse_def rb_applyFriction_def)

lemma rb_applyImpulse_emit_bodies [simp]:
  "bodies (rb_applyImpulse env s0 (emit t n e s)) = bodies (rb_applyImpulse env s0 s)"
  by (simp add: rb_applyImpulse_def Let_def)

lemma rb_applyFriction_cong_bodies:
  "bodies s = bodies s' \<Longrightarrow> bodies (rb_applyFriction env s0 s) = bodies (rb_applyFriction env s0 s')"
  by (simp add: rb_applyFriction_def Let_def)

lemma resolveRigidBodyCollision_bodies:
  "bodies (resolveRigidBodyCollision env s) =
     (if bodyA_of s = bodyB_of s
         \<or> collisionType (bodies s (bodyA_of s)) = Passive
         \<or> collisionType (bodies s (bodyB_of s)) = Passive
         \<or> 0 < rb_rvNormal env s
      then bodies s
      else bodies (rb_applyFriction env s (rb_applyImpulse env s s)))"
  by (auto simp add: resolveRigidBodyCollision_def Let_def intro: rb_applyFriction_cong_bodies)

lemma resolveRigidBodyCollision_emitted_early:
  "bodyA_of s \<noteq> bodyB_of s \<Longrightarrow>
   collisionType (bodies s (bodyA_of s)) = Passive
     \<or> collisionType (bodies s (bodyB_of s)) = Passive
     \<or> 0 < rb_rvNormal env s \<Longrightarrow>
   emitted (resolveRigidBodyCollision env s) =
     emitted s @
       [(colliderA (this s), ''precollision'',
           PreCollisionEvent (colliderA (this s)) (colliderB (this s))
             (getSideFromVector env (mtv (this s))) (mtv (this s))),
        (colliderB (this s), ''precollision'',
           PreCollisionEvent (colliderB (this s)) (colliderA (this s))
             (getOppositeSide env (getSideFromVector env (mtv (this s))))
             (Vector_negate (mtv (this s))))]"
  by (auto simp add: resolveRigidBodyCollision_def Let_def)

text \<open>
  Claim C1. When at least one of the two bodies of a contact is Passive, RigidBody
  resolution returns and leaves every body as it was: linear velocity, angular velocity,
  position and accumulated correction. When the two bodies are distinct, the events of the
  call are exactly the two pre-collision events, one on each collider: the function returns
  at line 116, before the post-collision events of lines 227 to 231.
\<close>

theorem rigid_body_passive_pair:
  assumes "collisionType (bodies s (bodyA_of s)) = Passive
           \<or> collisionType (bodies s (bodyB_of s)) = Passive"
  shows "fst (resolve env RigidBody s) = Returned
       \<and> bodies (snd (resolve env RigidBody s)) = bodies s
       \<and> (bodyA_of s \<noteq> bodyB_of s \<longrightarrow>
            emitted (snd (resolve env RigidBody s)) =
              emitted s @
                [(colliderA (this s), ''precollision'',
                    PreCollisionEvent (colliderA (this s)) (colliderB (this s))
                      (getSideFromVector env (mtv (this s))) (mtv (this s))),
                 (colliderB (this s), ''precollision'',
                    PreCollisionEvent (colliderB (this s)) (colliderA (this s))
                      (getOppositeSide env (getSideFromVector env (mtv (this s))))
                      (Vector_negate (mtv (this s))))])"
  using assms
  by (auto simp add: resolve_def resolveRigidBodyCollision_bodies
        resolveRigidBodyCollision_emitted_early)

text \<open>
  Claim C8. For two distinct bodies, neither of them Passive, whose relative velocity along
  the normal at the contact point is positive, RigidBody resolution returns without an
  error and leaves every body as it was: linear velocity, angular velocity, position and
  accumulated correction.
\<close>

theorem rigid_body_separating_pair:
  assumes "bodyA_of s \<noteq> bodyB_of s"
    and "collisionType (bodies s (bodyA_of s)) \<noteq> Passive"
    and "collisionType (bodies s (bodyB_of s)) \<noteq> Passive"
    and "0 < rb_rvNormal env s"
  shows "fst (resolve env RigidBody s) = Returned
       \<and> bodies (snd (resolve env RigidBody s)) = bodies s"
  using assms by (simp add: resolve_def resolveRigidBodyCollision_bodies)

subsection \<open>The impulse formula and the velocities it produces\<close>

lemma Vector_add_zero [simp]: "Vector_add v (Vector 0 0) = v"
  by (simp add: Vector_add_def)

lemma Vector_sub_zero [simp]: "Vector_sub v (Vector 0 0) = v"
  by (simp add: Vector_sub_def)

lemma Vector_scale_zero [simp]: "Vector_scale v 0 = Vector 0 0"
  by (simp add: Vector_scale_def)

lemma Vector_scale_zero_left [simp]: "Vector_scale (Vector 0 0) k = Vector 0 0"
  by (simp add: Vector_scale_def)

lemma impulse_form:
  "- ((1 + e) * r) / (a + b + c * t * t + d * u * u)
   = - (1 + e) * r / (a + b + c * t\<^sup>2 + d * u\<^sup>2)" for e r a b c d t u :: real
  by (simp only: minus_mult_left power2_eq_square mult.assoc)

lemma rb_inverse_spec:
  "rb_invMassA s = spec_inverse (collisionType (bodies s (bodyA_of s))) (mass (colliders s (collider (bodies s (bodyA_of s)))))"
  "rb_invMassB s = spec_inverse (collisionType (bodies s (bodyB_of s))) (mass (colliders s (collider (bodies s (bodyB_of s)))))"
  "rb_invMoiA s = spec_inverse (collisionType (bodies s (bodyA_of s))) (moi (colliders s (collider (bodies s (bodyA_of s)))))"
  "rb_invMoiB s = spec_inverse (collisionType (bodies s (bodyB_of s))) (moi (colliders s (collider (bodies s (bodyB_of s)))))"
  by (simp_all add: rb_invMassA_def rb_invMassB_def rb_invMoiA_def rb_invMoiB_def spec_inverse_def)

lemma rb_impulse_spec:
  "rb_impulse env s =
     spec_impulse (rb_coefRestitution s) (rb_rvNormal env s)
       (rb_invMassA s) (rb_invMassB s) (rb_invMoiA s) (rb_invMoiB s)
       (rb_raTangent env s) (rb_rbTangent env s)"
  unfolding rb_impulse_def spec_impulse_def by (rule impulse_form)

lemma rb_applyImpulse_collisionType [simp]:
  "collisionType (bodies (rb_applyImpulse env s0 s) b) = collisionType (bodies s b)"
  by (simp add: rb_applyImpulse_def Let_def)

lemma rb_applyImpulse_vel:
  assumes ab: "bodyA_of s \<noteq> bodyB_of s"
  shows "vel (bodies (rb_applyImpulse env s s) (bodyB_of s)) =
           Vector_add (vel (bodies s (bodyB_of s)))
             (Vector_scale (rb_normal env s) (rb_impulse env s * rb_invMassB s))"
    and "vel (bodies (rb_applyImpulse env s s) (bodyA_of s)) =
           Vector_sub (vel (bodies s (bodyA_of s)))
             (Vector_scale (rb_normal env s) (rb_impulse env s * rb_invMassA s))"
proof -
  have ba: "bodyB_of s \<noteq> bodyA_of s" using ab by simp
  have fa: "collisionType (bodies s (bodyA_of s)) = Fixed \<Longrightarrow> rb_invMassA s = 0"
    by (simp add: rb_invMassA_def)
  have fb: "collisionType (bodies s (bodyB_of s)) = Fixed \<Longrightarrow> rb_invMassB s = 0"
    by (simp add: rb_invMassB_def)
  show "vel (bodies (rb_applyImpulse env s s) (bodyB_of s)) =
           Vector_add (vel (bodies s (bodyB_of s)))
             (Vector_scale (rb_normal env s) (rb_impulse env s * rb_invMassB s))"
    using ab ba fb by (simp add: rb_applyImpulse_def Let_def)
  show "vel (bodies (rb_applyImpulse env s s) (bodyA_of s)) =
           Vector_sub (vel (bodies s (bodyA_of s)))
             (Vector_scale (rb_normal env s) (rb_impulse env s * rb_invMassA s))"
    using ab ba fa by (simp add: rb_applyImpulse_def Let_def)
qed

lemma rb_applyFriction_vel:
  assumes ab: "bodyA_of s0 \<noteq> bodyB_of s0"
    and ta: "collisionType (bodies s (bodyA_of s0)) = collisionType (bodies s0 (bodyA_of s0))"
    and tb: "collisionType (bodies s (bodyB_of s0)) = collisionType (bodies s0 (bodyB_of s0))"
  shows "vel (bodies (rb_applyFriction env s0 s) (bodyB_of s0)) =
           Vector_add (vel (bodies s (bodyB_of s0)))
             (Vector_scale (rb_appliedFriction env s0) (rb_invMassB s0))"
    and "vel (bodies (rb_applyFriction env s0 s) (bodyA_of s0)) =
           Vector_sub (vel (bodies s (bodyA_of s0)))
             (Vector_scale (rb_appliedFriction env s0) (rb_invMassA s0))"
proof -
  have ba: "bodyB_of s0 \<noteq> bodyA_of s0" using ab by simp
  have fa: "collisionType (bodies s0 (bodyA_of s0)) = Fixed \<Longrightarrow> rb_invMassA s0 = 0"
    by (simp add: rb_invMassA_def)
  have fb: "collisionType (bodies s0 (bodyB_of s0)) = Fixed \<Longrightarrow> rb_invMassB s0 = 0"
    by (simp add: rb_invMassB_def)
  show "vel (bodies (rb_applyFriction env s0 s) (bodyB_of s0)) =
           Vector_add (vel (bodies s (bodyB_of s0)))
             (Vector_scale (rb_appliedFriction env s0) (rb_invMassB s0))"
    using ab ba fb ta tb by (simp add: rb_applyFriction_def rb_appliedFriction_def Let_def)
  show "vel (bodies (rb_applyFriction env s0 s) (bodyA_of s0)) =
           Vector_sub (vel (bodies s (bodyA_of s0)))
             (Vector_scale (rb_appliedFriction env s0) (rb_invMassA s0))"
    using ab ba fa ta tb by (simp add: rb_applyFriction_def rb_appliedFriction_def Let_def)
qed

lemma rb_velocities:
  assumes ab: "bodyA_of s \<noteq> bodyB_of s"
  shows "vel (bodies (rb_applyFriction env s (rb_applyImpulse env s s)) (bodyB_of s)) =
           Vector_add
             (Vector_add (vel (bodies s (bodyB_of s)))
                (Vector_scale (rb_normal env s) (rb_impulse env s * rb_invMassB s)))
             (Vector_scale (rb_appliedFriction env s) (rb_invMassB s))"
    and "vel (bodies (rb_applyFriction env s (rb_applyImpulse env s s)) (bodyA_of s)) =
           Vector_sub
             (Vector_sub (vel (bodies s (bodyA_of s)))
                (Vector_scale (rb_normal env s) (rb_impulse env s * rb_invMassA s)))
             (Vector_scale (rb_appliedFriction env s) (rb_invMassA s))"
  using ab by (simp_all add: rb_applyFriction_vel rb_applyImpulse_vel)

subsection \<open>The example contacts, evaluated\<close>

lemma exampleWorld_fields [simp]:
  "this (exampleWorld ctA velA ctB velB fr) = exampleContact"
  "emitted (exampleWorld ctA velA ctB velB fr) = []"
  "bodies (exampleWorld ctA velA ctB velB fr) 0 =
     \<lparr>pos = Vector 0 0, vel = velA, rx = 0, collisionType = ctA, totalMtv = Vector 0 0, collider = 0\<rparr>"
  "bodies (exampleWorld ctA velA ctB velB fr) (Suc 0) =
     \<lparr>pos = Vector 3 0, vel = velB, rx = 0, collisionType = ctB, totalMtv = Vector 0 0, collider = 1\<rparr>"
  "colliders (exampleWorld ctA velA ctB velB fr) 0 =
     \<lparr>body = 0, mass = 1, moi = 1, restitution = 1 / 2, friction = fr, center = Vector 0 0\<rparr>"
  "colliders (exampleWorld ctA velA ctB velB fr) (Suc 0) =
     \<lparr>body = 1, mass = 2, moi = 1, restitution = 1, friction = fr, center = Vector 3 0\<rparr>"
  by (simp_all add: exampleWorld_def)

lemma exampleContact_fields [simp]:
  "colliderA exampleContact = 0" "colliderB exampleContact = 1"
  "mtv exampleContact = Vector 2 0" "point exampleContact = Vector 1 0"
  "normal exampleContact = Vector 1 0"
  by (simp_all add: exampleContact_def)

lemma exampleEnv_fields [simp]:
  "allowRigidBodyRotation exampleEnv = True"
  "getSideFromVector exampleEnv = exampleSide"
  "getOppositeSide exampleEnv = exampleOpposite"
  "normalizeZero exampleEnv = Vector 0 1"
  by (simp_all add: exampleEnv_def)

lemma example_bodyAB [simp]:
  "bodyA_of (exampleWorld ctA velA ctB velB fr) = 0"
  "bodyB_of (exampleWorld ctA velA ctB velB fr) = 1"
  by (simp_all add: bodyA_of_def bodyB_of_def)

lemma example_normal [simp]:
  "rb_normal env (exampleWorld ctA velA ctB velB fr) = Vector 1 0"
  by (simp add: rb_normal_def Vector_normalize_def Vector_distance_def Let_def)

lemma example_tangent [simp]:
  "rb_tangent env (exampleWorld ctA velA ctB velB fr) = Vector 0 (- 1)"
  by (simp add: rb_tangent_def Vector_normal_def Vector_normalize_def Vector_distance_def Let_def)

lemma example_rv [simp]:
  "rb_rv (exampleWorld ctA velA ctB velB fr) = Vector_sub velB velA"
  by (simp add: rb_rv_def rb_ra_def rb_rb_def Vector_cross_num_def Vector_sub_def Vector_add_def)

theorem rigid_body_passive_pair_witness:
  "(collisionType (bodies (exampleWorld Passive (Vector 0 0) Active (Vector (- 1) 0) 0)
        (bodyA_of (exampleWorld Passive (Vector 0 0) Active (Vector (- 1) 0) 0))) = Passive)
   \<and> bodyA_of (exampleWorld Passive (Vector 0 0) Active (Vector (- 1) 0) 0)
       \<noteq> bodyB_of (exampleWorld Passive (Vector 0 0) Active (Vector (- 1) 0) 0)
   \<and> fst (resolve exampleEnv RigidBody (exampleWorld Passive (Vector 0 0) Active (Vector (- 1) 0) 0)) = Returned
   \<and> bodies (snd (resolve exampleEnv RigidBody (exampleWorld Passive (Vector 0 0) Active (Vector (- 1) 0) 0)))
       = bodies (exampleWorld Passive (Vector 0 0) Active (Vector (- 1) 0) 0)
   \<and> emitted (snd (resolve exampleEnv RigidBody (exampleWorld Passive (Vector 0 0) Active (Vector (- 1) 0) 0)))
       = [(0, ''precollision'', PreCollisionEvent 0 1 Right (Vector 2 0)),
          (1, ''precollision'', PreCollisionEvent 1 0 Left (Vector (- 2) 0))]"
  using rigid_body_passive_pair [of "exampleWorld Passive (Vector 0 0) Active (Vector (- 1) 0) 0" exampleEnv]
  by (simp add: exampleSide_def exampleOpposite_def Vector_negate_def)

text \<open>
  The spec has post-collision events fire for a Passive pair as well. With body 0 Passive,
  the log of the call holds the two pre-collision events and nothing else.
\<close>

theorem rigid_body_passive_pair_no_post_events:
  "collisionType (bodies (exampleWorld Passive (Vector 0 0) Active (Vector (- 1) 0) 0) 0) = Passive
   \<and> emitted (snd (resolve exampleEnv RigidBody (exampleWorld Passive (Vector 0 0) Active (Vector (- 1) 0) 0)))
       = [(0, ''precollision'', PreCollisionEvent 0 1 Right (Vector 2 0)),
          (1, ''precollision'', PreCollisionEvent 1 0 Left (Vector (- 2) 0))]"
  by (simp add: resolve_def resolveRigidBodyCollision_def Let_def exampleSide_def
        exampleOpposite_def Vector_negate_def)

theorem rigid_body_separating_pair_witness:
  "bodyA_of (exampleWorld Active (Vector 0 0) Active (Vector 1 0) 0)
     \<noteq> bodyB_of (exampleWorld Active (Vector 0 0) Active (Vector 1 0) 0)
   \<and> 0 < rb_rvNormal exampleEnv (exampleWorld Active (Vector 0 0) Active (Vector 1 0) 0)
   \<and> fst (resolve exampleEnv RigidBody (exampleWorld Active (Vector 0 0) Active (Vector 1 0) 0)) = Returned
   \<and> bodies (snd (resolve exampleEnv RigidBody (exampleWorld Active (Vector 0 0) Active (Vector 1 0) 0)))
       = bodies (exampleWorld Active (Vector 0 0) Active (Vector 1 0) 0)"
proof -
  have h: "0 < rb_rvNormal exampleEnv (exampleWorld Active (Vector 0 0) Active (Vector 1 0) 0)"
    by (simp add: rb_rvNormal_def Vector_dot_def Vector_sub_def)
  show ?thesis
    using h rigid_body_separating_pair [of "exampleWorld Active (Vector 0 0) Active (Vector 1 0) 0" exampleEnv]
    by simp
qed

theorem resolve_unknown_strategy_witness:
  "UnknownStrategy 7 \<noteq> RigidBody \<and> UnknownStrategy 7 \<noteq> Box
   \<and> resolve exampleEnv (UnknownStrategy 7) selfPairWorld
       = (Threw ''Unknown collision resolution strategy'', selfPairWorld)"
  using resolve_unknown_strategy [of "UnknownStrategy 7" exampleEnv selfPairWorld] by simp

subsection \<open>A Fixed body against a moving one\<close>

lemma rb_applyFriction_totalMtv [simp]:
  "totalMtv (bodies (rb_applyFriction env s0 s) b) = totalMtv (bodies s b)"
  by (simp add: rb_applyFriction_def Let_def)

lemma rb_applyFriction_fixedA:
  "collisionType (bodies s (bodyA_of s0)) = Fixed \<Longrightarrow> bodyA_of s0 \<noteq> bodyB_of s0 \<Longrightarrow>
   bodies (rb_applyFriction env s0 s) (bodyA_of s0) = bodies s (bodyA_of s0)"
  by (simp add: rb_applyFriction_def Let_def)

lemma rb_applyFriction_fixedB:
  "collisionType (bodies s (bodyB_of s0)) = Fixed \<Longrightarrow>
   collisionType (bodies s (bodyA_of s0)) \<noteq> Fixed \<Longrightarrow>
   bodies (rb_applyFriction env s0 s) (bodyB_of s0) = bodies s (bodyB_of s0)"
  by (auto simp add: rb_applyFriction_def Let_def)

lemma rb_applyImpulse_fixedA:
  assumes "collisionType (bodies s (bodyA_of s0)) = Fixed" and "bodyA_of s0 \<noteq> bodyB_of s0"
  shows "bodies (rb_applyImpulse env s0 s) (bodyA_of s0) = bodies s (bodyA_of s0)"
    and "totalMtv (bodies (rb_applyImpulse env s0 s) (bodyB_of s0))
         = Vector_add (totalMtv (bodies s (bodyB_of s0))) (mtv (this s0))"
  using assms by (simp_all add: rb_applyImpulse_def Let_def)

lemma rb_applyImpulse_fixedB:
  assumes "collisionType (bodies s (bodyB_of s0)) = Fixed"
    and "collisionType (bodies s (bodyA_of s0)) \<noteq> Fixed"
  shows "bodies (rb_applyImpulse env s0 s) (bodyB_of s0) = bodies s (bodyB_of s0)"
    and "totalMtv (bodies (rb_applyImpulse env s0 s) (bodyA_of s0))
         = Vector_add (totalMtv (bodies s (bodyA_of s0))) (Vector_negate (mtv (this s0)))"
  using assms by (auto simp add: rb_applyImpulse_def Let_def)

text \<open>
  Claim C4. In a RigidBody resolution of one Fixed body and one Active body, the Fixed
  body is left as it was: linear velocity, angular velocity, position and accumulated
  correction. Unless the bodies are separating (\<open>rvNormal > 0\<close>, the early return of line
  150), the Active body's accumulated correction receives the whole MTV, not half of it:
  the MTV itself when the Active body is B, its negation when the Active body is A.
\<close>

theorem rigid_body_one_fixed:
  "(collisionType (bodies s (bodyA_of s)) = Fixed \<and> collisionType (bodies s (bodyB_of s)) = Active \<longrightarrow>
      bodies (snd (resolve env RigidBody s)) (bodyA_of s) = bodies s (bodyA_of s)
    \<and> (\<not> 0 < rb_rvNormal env s \<longrightarrow>
         totalMtv (bodies (snd (resolve env RigidBody s)) (bodyB_of s))
         = Vector_add (totalMtv (bodies s (bodyB_of s))) (mtv (this s))))
 \<and> (collisionType (bodies s (bodyA_of s)) = Active \<and> collisionType (bodies s (bodyB_of s)) = Fixed \<longrightarrow>
      bodies (snd (resolve env RigidBody s)) (bodyB_of s) = bodies s (bodyB_of s)
    \<and> (\<not> 0 < rb_rvNormal env s \<longrightarrow>
         totalMtv (bodies (snd (resolve env RigidBody s)) (bodyA_of s))
         = Vector_add (totalMtv (bodies s (bodyA_of s))) (Vector_negate (mtv (this s)))))"
proof (intro conjI impI)
  assume h: "collisionType (bodies s (bodyA_of s)) = Fixed \<and> collisionType (bodies s (bodyB_of s)) = Active"
  then have ab: "bodyA_of s \<noteq> bodyB_of s" by auto
  from h ab show "bodies (snd (resolve env RigidBody s)) (bodyA_of s) = bodies s (bodyA_of s)"
    by (simp add: resolve_def resolveRigidBodyCollision_bodies rb_applyFriction_fixedA
          rb_applyImpulse_fixedA)
  assume "\<not> 0 < rb_rvNormal env s"
  with h ab show "totalMtv (bodies (snd (resolve env RigidBody s)) (bodyB_of s))
         = Vector_add (totalMtv (bodies s (bodyB_of s))) (mtv (this s))"
    by (simp add: resolve_def resolveRigidBodyCollision_bodies rb_applyImpulse_fixedA)
next
  assume h: "collisionType (bodies s (bodyA_of s)) = Active \<and> collisionType (bodies s (bodyB_of s)) = Fixed"
  then have ab: "bodyA_of s \<noteq> bodyB_of s" by auto
  from h ab show "bodies (snd (resolve env RigidBody s)) (bodyB_of s) = bodies s (bodyB_of s)"
    by (simp add: resolve_def resolveRigidBodyCollision_bodies rb_applyFriction_fixedB
          rb_applyImpulse_fixedB)
  assume "\<not> 0 < rb_rvNormal env s"
  with h ab show "totalMtv (bodies (snd (resolve env RigidBody s)) (bodyA_of s))
         = Vector_add (totalMtv (bodies s (bodyA_of s))) (Vector_negate (mtv (this s)))"
    by (simp add: resolve_def resolveRigidBodyCollision_bodies rb_applyImpulse_fixedB)
qed

text \<open>
  The spec gives the Active body the whole MTV in every resolution of such a pair. With
  body 0 Fixed and body 1 Active and moving away from it, the call returns at line 150:
  the accumulated correction of body 1 is still zero, not the MTV \<open>(2, 0)\<close>.
\<close>

theorem rigid_body_one_fixed_separating:
  "collisionType (bodies (exampleWorld Fixed (Vector 0 0) Active (Vector 1 0) 0) 0) = Fixed
   \<and> collisionType (bodies (exampleWorld Fixed (Vector 0 0) Active (Vector 1 0) 0) 1) = Active
   \<and> mtv (this (exampleWorld Fixed (Vector 0 0) Active (Vector 1 0) 0)) = Vector 2 0
   \<and> totalMtv (bodies (exampleWorld Fixed (Vector 0 0) Active (Vector 1 0) 0) 1) = Vector 0 0
   \<and> totalMtv (bodies (snd (resolve exampleEnv RigidBody
                               (exampleWorld Fixed (Vector 0 0) Active (Vector 1 0) 0))) 1)
       = Vector 0 0"
  by (simp add: resolve_def resolveRigidBodyCollision_bodies rb_rvNormal_def Vector_dot_def
        Vector_sub_def)

theorem rigid_body_one_fixed_witness:
  "collisionType (bodies (exampleWorld Fixed (Vector 0 0) Active (Vector (- 1) 0) 0) 0) = Fixed
   \<and> collisionType (bodies (exampleWorld Fixed (Vector 0 0) Active (Vector (- 1) 0) 0) 1) = Active
   \<and> \<not> 0 < rb_rvNormal exampleEnv (exampleWorld Fixed (Vector 0 0) Active (Vector (- 1) 0) 0)
   \<and> bodies (snd (resolve exampleEnv RigidBody
                     (exampleWorld Fixed (Vector 0 0) Active (Vector (- 1) 0) 0))) 0
       = bodies (exampleWorld Fixed (Vector 0 0) Active (Vector (- 1) 0) 0) 0
   \<and> totalMtv (bodies (snd (resolve exampleEnv RigidBody
                               (exampleWorld Fixed (Vector 0 0) Active (Vector (- 1) 0) 0))) 1)
       = Vector 2 0
   \<and> collisionType (bodies (exampleWorld Active (Vector 1 0) Fixed (Vector 0 0) 0) 0) = Active
   \<and> collisionType (bodies (exampleWorld Active (Vector 1 0) Fixed (Vector 0 0) 0) 1) = Fixed
   \<and> \<not> 0 < rb_rvNormal exampleEnv (exampleWorld Active (Vector 1 0) Fixed (Vector 0 0) 0)
   \<and> bodies (snd (resolve exampleEnv RigidBody
                     (exampleWorld Active (Vector 1 0) Fixed (Vector 0 0) 0))) 1
       = bodies (exampleWorld Active (Vector 1 0) Fixed (Vector 0 0) 0) 1
   \<and> totalMtv (bodies (snd (resolve exampleEnv RigidBody
                               (exampleWorld Active (Vector 1 0) Fixed (Vector 0 0) 0))) 0)
       = Vector (- 2) 0"
proof -
  have h1: "\<not> 0 < rb_rvNormal exampleEnv (exampleWorld Fixed (Vector 0 0) Active (Vector (- 1) 0) 0)"
    by (simp add: rb_rvNormal_def Vector_dot_def Vector_sub_def)
  have h2: "\<not> 0 < rb_rvNormal exampleEnv (exampleWorld Active (Vector 1 0) Fixed (Vector 0 0) 0)"
    by (simp add: rb_rvNormal_def Vector_dot_def Vector_sub_def)
  show ?thesis
    using h1 h2
      rigid_body_one_fixed [of "exampleWorld Fixed (Vector 0 0) Active (Vector (- 1) 0) 0" exampleEnv]
      rigid_body_one_fixed [of "exampleWorld Active (Vector 1 0) Fixed (Vector 0 0) 0" exampleEnv]
    by (simp add: Vector_add_def Vector_negate_def)
qed

subsection \<open>A body in contact with itself\<close>

lemma rigid_body_self_pair_noop:
  "bodyA_of s = bodyB_of s \<Longrightarrow> resolve env RigidBody s = (Returned, s)"
  by (simp add: resolve_def resolveRigidBodyCollision_def Let_def)

text \<open>
  Claim C2. A contact whose two colliders have the same body should resolve as a no-op
  under either strategy. The RigidBody strategy does so (\<open>rigid_body_self_pair_noop\<close>).
  The Box strategy has no such guard: for body 0, Active and moving to the right, in
  contact with itself, it emits two pre-collision and two post-collision events and cancels
  the body's velocity.
\<close>

theorem box_self_pair_not_noop:
  "bodyA_of selfPairWorld = bodyB_of selfPairWorld
   \<and> vel (bodies selfPairWorld 0) = Vector 1 0
   \<and> vel (bodies (snd (resolve exampleEnv Box selfPairWorld)) 0) = Vector 0 0
   \<and> emitted selfPairWorld = []
   \<and> emitted (snd (resolve exampleEnv Box selfPairWorld))
       = [(0, ''precollision'', PreCollisionEvent 0 0 Right (Vector (- 2) 0)),
          (0, ''precollision'', PreCollisionEvent 0 0 Left (Vector 2 0)),
          (0, ''postcollision'', PostCollisionEvent 0 0 Left (Vector (- 1) 0)),
          (0, ''postcollision'', PostCollisionEvent 0 0 Right (Vector 1 0))]"
  by (simp add: selfPairWorld_def resolve_def resolveBoxCollision_def applyBoxImpulse_def Let_def
        bodyA_of_def bodyB_of_def exampleSide_def exampleOpposite_def Vector_negate_def Vector_scale_def Vector_add_def
        Vector_dot_def Vector_normalize_def Vector_distance_def)

subsection \<open>The impulse a resolution applies\<close>

text \<open>
  Claim C5. In terms of the contact and the two bodies alone: the combined restitution and
  friction coefficients are the minimum of the two colliders' coefficients; the inverse
  mass and inverse moment of inertia of a body are 0 when it is Fixed and the reciprocals
  of its collider's mass and moment of inertia otherwise; with \<open>n\<close> the normalized normal,
  \<open>tg\<close> its quarter turn, \<open>ra\<close> and \<open>rb\<close> the contact point relative to the two centres and
  \<open>rv\<close> the relative velocity at the contact point, spin included, the normal impulse is
  \<open>-(1 + restitution) * (rv\<cdot>n) /
     (invMassA + invMassB + invMoiA*(ra\<cdot>tg)\<^sup>2 + invMoiB*(rb\<cdot>tg)\<^sup>2)\<close>.
  In a resolution that applies an impulse (two distinct bodies of the data model, neither
  Passive, not separating) this is the impulse the bodies receive: B's velocity gains the
  normal scaled by impulse times \<open>invMassB\<close>, A's loses the normal scaled by impulse times
  \<open>invMassA\<close>, each together with the friction impulse scaled by the same inverse mass.
\<close>

theorem rigid_body_impulse_formula:
  "let bA = bodies s (bodyA_of s);
       bB = bodies s (bodyB_of s);
       cA = colliders s (collider bA);
       cB = colliders s (collider bB);
       n = Vector_normalize (normalizeZero env) (normal (this s));
       tg = Vector_normalize (normalizeZero env) (Vector_normal n);
       ra = Vector_sub (point (this s)) (center (colliders s (colliderA (this s))));
       rb = Vector_sub (point (this s)) (center (colliders s (colliderB (this s))));
       rv = Vector_sub (Vector_add (vel bB) (Vector_cross_num rb (- rx bB)))
                       (Vector_sub (vel bA) (Vector_cross_num ra (rx bA)));
       e = min (restitution cA) (restitution cB);
       f = min (friction cA) (friction cB);
       invMassA = spec_inverse (collisionType bA) (mass cA);
       invMassB = spec_inverse (collisionType bB) (mass cB);
       invMoiA = spec_inverse (collisionType bA) (moi cA);
       invMoiB = spec_inverse (collisionType bB) (moi cB);
       J = spec_impulse e (Vector_dot rv n) invMassA invMassB invMoiA invMoiB
             (Vector_dot ra tg) (Vector_dot rb tg);
       t = Vector_normalize (normalizeZero env) (Vector_sub rv (Vector_scale n (Vector_dot rv n)));
       jt = Vector_dot rv t /
              (invMassA + invMassB + Vector_dot ra n * Vector_dot ra n * invMoiA
               + Vector_dot rb n * Vector_dot rb n * invMoiB);
       F = (if f \<noteq> 0 \<and> Vector_dot rv tg \<noteq> 0
            then (if \<bar>jt\<bar> \<le> J * f then Vector_negate (Vector_scale t jt)
                  else Vector_scale t (- J * f))
            else Vector 0 0);
       s' = snd (resolve env RigidBody s)
   in rb_coefRestitution s = e
    \<and> rb_coefFriction s = f
    \<and> rb_invMassA s = invMassA \<and> rb_invMassB s = invMassB
    \<and> rb_invMoiA s = invMoiA \<and> rb_invMoiB s = invMoiB
    \<and> rb_impulse env s = J
    \<and> (rb_wellformed s \<and> bodyA_of s \<noteq> bodyB_of s
         \<and> collisionType bA \<noteq> Passive \<and> collisionType bB \<noteq> Passive
         \<and> \<not> 0 < Vector_dot rv n \<longrightarrow>
         vel (bodies s' (bodyB_of s)) =
           Vector_add (Vector_add (vel bB) (Vector_scale n (J * invMassB))) (Vector_scale F invMassB)
       \<and> vel (bodies s' (bodyA_of s)) =
           Vector_sub (Vector_sub (vel bA) (Vector_scale n (J * invMassA))) (Vector_scale F invMassA))"
proof -
  have J: "rb_impulse env s =
      spec_impulse
        (min (restitution (colliders s (collider (bodies s (bodyA_of s)))))
             (restitution (colliders s (collider (bodies s (bodyB_of s))))))
        (Vector_dot (rb_rv s) (rb_normal env s))
        (spec_inverse (collisionType (bodies s (bodyA_of s))) (mass (colliders s (collider (bodies s (bodyA_of s))))))
        (spec_inverse (collisionType (bodies s (bodyB_of s))) (mass (colliders s (collider (bodies s (bodyB_of s))))))
        (spec_inverse (collisionType (bodies s (bodyA_of s))) (moi (colliders s (collider (bodies s (bodyA_of s))))))
        (spec_inverse (collisionType (bodies s (bodyB_of s))) (moi (colliders s (collider (bodies s (bodyB_of s))))))
        (Vector_dot (rb_ra s) (rb_tangent env s)) (Vector_dot (rb_rb s) (rb_tangent env s))"
    by (simp only: rb_impulse_spec rb_inverse_spec rb_coefRestitution_def rb_rvNormal_def
          rb_raTangent_def rb_rbTangent_def)
  have F: "rb_appliedFriction env s =
      (if min (friction (colliders s (collider (bodies s (bodyA_of s)))))
              (friction (colliders s (collider (bodies s (bodyB_of s))))) \<noteq> 0
          \<and> Vector_dot (rb_rv s) (rb_tangent env s) \<noteq> 0
       then (if \<bar>rb_jt env s\<bar> \<le> rb_impulse env s *
                   min (friction (colliders s (collider (bodies s (bodyA_of s)))))
                       (friction (colliders s (collider (bodies s (bodyB_of s)))))
             then Vector_negate (Vector_scale (rb_t env s) (rb_jt env s))
             else Vector_scale (rb_t env s)
                    (- rb_impulse env s *
                       min (friction (colliders s (collider (bodies s (bodyA_of s)))))
                           (friction (colliders s (collider (bodies s (bodyB_of s)))))))
       else Vector 0 0)"
    by (simp only: rb_appliedFriction_def rb_frictionImpulse_def rb_coefFriction_def
          rb_rvTangent_def)
  have jt: "rb_jt env s =
      Vector_dot (rb_rv s) (rb_t env s) /
        (spec_inverse (collisionType (bodies s (bodyA_of s))) (mass (colliders s (collider (bodies s (bodyA_of s)))))
         + spec_inverse (collisionType (bodies s (bodyB_of s))) (mass (colliders s (collider (bodies s (bodyB_of s)))))
         + Vector_dot (rb_ra s) (rb_normal env s) * Vector_dot (rb_ra s) (rb_normal env s)
           * spec_inverse (collisionType (bodies s (bodyA_of s))) (moi (colliders s (collider (bodies s (bodyA_of s)))))
         + Vector_dot (rb_rb s) (rb_normal env s) * Vector_dot (rb_rb s) (rb_normal env s)
           * spec_inverse (collisionType (bodies s (bodyB_of s))) (moi (colliders s (collider (bodies s (bodyB_of s))))))"
    by (simp only: rb_jt_def rb_inverse_spec rb_raNormal_def rb_rbNormal_def)
  have b: "rb_wellformed s \<and> bodyA_of s \<noteq> bodyB_of s
        \<and> collisionType (bodies s (bodyA_of s)) \<noteq> Passive
        \<and> collisionType (bodies s (bodyB_of s)) \<noteq> Passive
        \<and> \<not> 0 < rb_rvNormal env s \<Longrightarrow>
      bodies (snd (resolve env RigidBody s)) = bodies (rb_applyFriction env s (rb_applyImpulse env s s))"
    by (simp add: resolve_def resolveRigidBodyCollision_bodies)
  have v: "rb_wellformed s \<and> bodyA_of s \<noteq> bodyB_of s
        \<and> collisionType (bodies s (bodyA_of s)) \<noteq> Passive
        \<and> collisionType (bodies s (bodyB_of s)) \<noteq> Passive
        \<and> \<not> 0 < rb_rvNormal env s \<Longrightarrow>
      vel (bodies (snd (resolve env RigidBody s)) (bodyB_of s)) =
           Vector_add
             (Vector_add (vel (bodies s (bodyB_of s)))
                (Vector_scale (rb_normal env s) (rb_impulse env s * rb_invMassB s)))
             (Vector_scale (rb_appliedFriction env s) (rb_invMassB s))
    \<and> vel (bodies (snd (resolve env RigidBody s)) (bodyA_of s)) =
           Vector_sub
             (Vector_sub (vel (bodies s (bodyA_of s)))
                (Vector_scale (rb_normal env s) (rb_impulse env s * rb_invMassA s)))
             (Vector_scale (rb_appliedFriction env s) (rb_invMassA s))"
    using b by (simp add: rb_velocities)
  have names:
    "rb_normal env s = Vector_normalize (normalizeZero env) (normal (this s))"
    "rb_tangent env s = Vector_normalize (normalizeZero env)
                          (Vector_normal (Vector_normalize (normalizeZero env) (normal (this s))))"
    "rb_ra s = Vector_sub (point (this s)) (center (colliders s (colliderA (this s))))"
    "rb_rb s = Vector_sub (point (this s)) (center (colliders s (colliderB (this s))))"
    by (simp_all only: rb_normal_def rb_tangent_def rb_ra_def rb_rb_def)
  have rv: "rb_rv s =
      Vector_sub
        (Vector_add (vel (bodies s (bodyB_of s)))
           (Vector_cross_num (Vector_sub (point (this s)) (center (colliders s (colliderB (this s)))))
              (- rx (bodies s (bodyB_of s)))))
        (Vector_sub (vel (bodies s (bodyA_of s)))
           (Vector_cross_num (Vector_sub (point (this s)) (center (colliders s (colliderA (this s)))))
              (rx (bodies s (bodyA_of s)))))"
    by (simp only: rb_rv_def rb_ra_def rb_rb_def)
  have t: "rb_t env s =
      Vector_normalize (normalizeZero env)
        (Vector_sub (rb_rv s) (Vector_scale (rb_normal env s) (Vector_dot (rb_rv s) (rb_normal env s))))"
    by (simp only: rb_t_def)
  show ?thesis
    unfolding Let_def
    using v
    by (simp only: rb_coefRestitution_def rb_coefFriction_def rb_inverse_spec J F jt t
          rb_rvNormal_def names rv)
       simp
qed

subsection \<open>A contact with friction, evaluated\<close>

lemma frictionWorld_locals:
  "rb_invMassA (exampleWorld Active (Vector 0 0) Active (Vector (- 1) 1) (1 / 2)) = 1"
  "rb_invMassB (exampleWorld Active (Vector 0 0) Active (Vector (- 1) 1) (1 / 2)) = 1 / 2"
  "rb_invMoiA (exampleWorld Active (Vector 0 0) Active (Vector (- 1) 1) (1 / 2)) = 1"
  "rb_invMoiB (exampleWorld Active (Vector 0 0) Active (Vector (- 1) 1) (1 / 2)) = 1"
  "rb_coefRestitution (exampleWorld Active (Vector 0 0) Active (Vector (- 1) 1) (1 / 2)) = 1 / 2"
  "rb_coefFriction (exampleWorld Active (Vector 0 0) Active (Vector (- 1) 1) (1 / 2)) = 1 / 2"
  "rb_rvNormal env (exampleWorld Active (Vector 0 0) Active (Vector (- 1) 1) (1 / 2)) = - 1"
  "rb_rvTangent env (exampleWorld Active (Vector 0 0) Active (Vector (- 1) 1) (1 / 2)) = - 1"
  "rb_raTangent env (exampleWorld Active (Vector 0 0) Active (Vector (- 1) 1) (1 / 2)) = 0"
  "rb_rbTangent env (exampleWorld Active (Vector 0 0) Active (Vector (- 1) 1) (1 / 2)) = 0"
  "rb_raNormal env (exampleWorld Active (Vector 0 0) Active (Vector (- 1) 1) (1 / 2)) = 1"
  "rb_rbNormal env (exampleWorld Active (Vector 0 0) Active (Vector (- 1) 1) (1 / 2)) = - 2"
  "rb_wellformed (exampleWorld Active (Vector 0 0) Active (Vector (- 1) 1) (1 / 2))"
  by (simp_all add: rb_invMassA_def rb_invMassB_def rb_invMoiA_def rb_invMoiB_def
        rb_coefRestitution_def rb_coefFriction_def rb_rvNormal_def rb_rvTangent_def
        rb_raTangent_def rb_rbTangent_def rb_raNormal_def rb_rbNormal_def rb_ra_def rb_rb_def
        rb_wellformed_def Vector_dot_def Vector_sub_def Let_def)

lemma frictionWorld_impulse:
  "rb_impulse env (exampleWorld Active (Vector 0 0) Active (Vector (- 1) 1) (1 / 2)) = 1"
  by (simp add: rb_impulse_def frictionWorld_locals)

lemma frictionWorld_t:
  "rb_t env (exampleWorld Active (Vector 0 0) Active (Vector (- 1) 1) (1 / 2)) = Vector 0 1"
  by (simp add: rb_t_def Vector_dot_def Vector_sub_def Vector_scale_def Vector_normalize_def
        Vector_distance_def Let_def)

lemma frictionWorld_jt:
  "rb_jt env (exampleWorld Active (Vector 0 0) Active (Vector (- 1) 1) (1 / 2)) = 2 / 13"
  by (simp add: rb_jt_def frictionWorld_locals frictionWorld_t Vector_dot_def Vector_sub_def)

lemma frictionWorld_frictionImpulse:
  "rb_frictionImpulse env (exampleWorld Active (Vector 0 0) Active (Vector (- 1) 1) (1 / 2))
   = Vector 0 (- (2 / 13))"
  by (simp add: rb_frictionImpulse_def frictionWorld_locals frictionWorld_t frictionWorld_jt
        frictionWorld_impulse Vector_negate_def Vector_scale_def)

theorem friction_impulse_bound_witness:
  "rb_wellformed (exampleWorld Active (Vector 0 0) Active (Vector (- 1) 1) (1 / 2))
   \<and> normal (this (exampleWorld Active (Vector 0 0) Active (Vector (- 1) 1) (1 / 2))) \<noteq> Vector 0 0
   \<and> rb_coefFriction (exampleWorld Active (Vector 0 0) Active (Vector (- 1) 1) (1 / 2)) \<noteq> 0
   \<and> rb_rvTangent exampleEnv (exampleWorld Active (Vector 0 0) Active (Vector (- 1) 1) (1 / 2)) \<noteq> 0
   \<and> rb_frictionImpulse exampleEnv (exampleWorld Active (Vector 0 0) Active (Vector (- 1) 1) (1 / 2))
       = Vector 0 (- (2 / 13))
   \<and> Vector_distance (Vector 0 (- (2 / 13)))
       \<le> \<bar>rb_impulse exampleEnv (exampleWorld Active (Vector 0 0) Active (Vector (- 1) 1) (1 / 2))\<bar>
          * rb_coefFriction (exampleWorld Active (Vector 0 0) Active (Vector (- 1) 1) (1 / 2))"
  using friction_impulse_bound
          [of "exampleWorld Active (Vector 0 0) Active (Vector (- 1) 1) (1 / 2)" exampleEnv]
  by (simp add: frictionWorld_locals frictionWorld_frictionImpulse)

subsection \<open>A contact off the axis, evaluated\<close>

lemma spinWorld_fields [simp]:
  "this spinWorld = \<lparr>colliderA = 0, colliderB = 1, mtv = Vector 2 0, point = Vector 1 1,
                      normal = Vector 1 0\<rparr>"
  "bodies spinWorld 0 =
     \<lparr>pos = Vector 0 0, vel = Vector 0 0, rx = 1, collisionType = Active,
      totalMtv = Vector 0 0, collider = 0\<rparr>"
  "bodies spinWorld (Suc 0) =
     \<lparr>pos = Vector 3 0, vel = Vector (- 1) 4, rx = 2, collisionType = Active,
      totalMtv = Vector 0 0, collider = 1\<rparr>"
  "colliders spinWorld 0 =
     \<lparr>body = 0, mass = 1, moi = 2, restitution = 1 / 2, friction = 1 / 2, center = Vector 0 0\<rparr>"
  "colliders spinWorld (Suc 0) =
     \<lparr>body = 1, mass = 2, moi = 4, restitution = 1, friction = 1 / 8, center = Vector 3 0\<rparr>"
  by (simp_all add: spinWorld_def)

lemma spinWorld_bodyAB [simp]: "bodyA_of spinWorld = 0" "bodyB_of spinWorld = 1"
  by (simp_all add: bodyA_of_def bodyB_of_def)

lemma spinWorld_wellformed: "rb_wellformed spinWorld"
  by (simp add: rb_wellformed_def Let_def)

lemma spinWorld_vectors:
  "Vector_normalize z (Vector 1 0) = Vector 1 0"
  "Vector_normalize z (Vector 0 (- 1)) = Vector 0 (- 1)"
  by (simp_all add: Vector_normalize_def Vector_distance_def Let_def)

theorem rigid_body_impulse_formula_witness:
  "rb_wellformed spinWorld
   \<and> bodyA_of spinWorld \<noteq> bodyB_of spinWorld
   \<and> collisionType (bodies spinWorld (bodyA_of spinWorld)) \<noteq> Passive
   \<and> collisionType (bodies spinWorld (bodyB_of spinWorld)) \<noteq> Passive
   \<and> rb_coefRestitution spinWorld = 1 / 2
   \<and> rb_coefFriction spinWorld = 1 / 8
   \<and> rb_invMassA spinWorld = 1 \<and> rb_invMassB spinWorld = 1 / 2
   \<and> rb_invMoiA spinWorld = 1 / 2 \<and> rb_invMoiB spinWorld = 1 / 4
   \<and> rb_impulse exampleEnv spinWorld = 4 / 3
   \<and> vel (bodies (snd (resolve exampleEnv RigidBody spinWorld)) 1) = Vector (- (1 / 3)) (49 / 12)
   \<and> vel (bodies (snd (resolve exampleEnv RigidBody spinWorld)) 0) = Vector (- (4 / 3)) (- (1 / 6))"
  using rigid_body_impulse_formula [of spinWorld exampleEnv]
  by (simp add: Let_def spinWorld_wellformed spinWorld_vectors spec_inverse_def spec_impulse_def
        Vector_normal_def Vector_sub_def Vector_add_def Vector_cross_num_def Vector_dot_def
        Vector_scale_def Vector_negate_def)

subsection \<open>Positions under the Box strategy\<close>

lemma applyBoxImpulse_collisionType [simp]:
  "collisionType (bodies (applyBoxImpulse env a b m s) c) = collisionType (bodies s c)"
  by (simp add: applyBoxImpulse_def Let_def)

lemma applyBoxImpulse_other:
  "c \<noteq> a \<Longrightarrow> bodies (applyBoxImpulse env a b m s) c = bodies s c"
  by (simp add: applyBoxImpulse_def Let_def)

lemma applyBoxImpulse_skipped:
  "collisionType (bodies s a) \<noteq> Active \<or> collisionType (bodies s b) = Passive \<Longrightarrow>
   applyBoxImpulse env a b m s = s"
  by (auto simp add: applyBoxImpulse_def)

lemma applyBoxImpulse_pos:
  "collisionType (bodies s a) = Active \<Longrightarrow> collisionType (bodies s b) \<noteq> Passive \<Longrightarrow>
   pos (bodies (applyBoxImpulse env a b m s) a) =
     Vector_add (pos (bodies s a))
       (if collisionType (bodies s b) = Active then Vector_scale m (1 / 2) else m)"
  by (simp add: applyBoxImpulse_def Let_def Vector_add_def)

lemma applyBoxImpulse_bodies_cong:
  "bodies s = bodies s' \<Longrightarrow>
   bodies (applyBoxImpulse env a b m s) = bodies (applyBoxImpulse env a b m s')"
  by (simp add: applyBoxImpulse_def Let_def)

lemma resolveBoxCollision_bodies:
  "bodies (resolveBoxCollision env s) =
     bodies (applyBoxImpulse env (bodyB_of s) (bodyA_of s) (Vector_negate (Vector_negate (mtv (this s))))
              (applyBoxImpulse env (bodyA_of s) (bodyB_of s) (Vector_negate (mtv (this s))) s))"
  unfolding resolveBoxCollision_def Let_def bodyA_of_def bodyB_of_def
  by (intro applyBoxImpulse_bodies_cong) simp

lemma Vector_negate_negate [simp]: "Vector_negate (Vector_negate v) = v"
  by (simp add: Vector_negate_def)

lemma Vector_add_negate: "Vector_add p (Vector_negate m) = Vector_sub p m"
  by (simp add: Vector_add_def Vector_negate_def Vector_sub_def)

lemma Vector_scale_negate: "Vector_scale (Vector_negate m) k = Vector_negate (Vector_scale m k)"
  by (simp add: Vector_scale_def Vector_negate_def)

lemma Vector_sub_add_cancel: "Vector_sub (Vector_add p q) p = q"
  by (simp add: Vector_sub_def Vector_add_def)

lemma Vector_sub_sub_cancel: "Vector_sub (Vector_sub p q) p = Vector_negate q"
  by (simp add: Vector_sub_def Vector_negate_def)

lemma Vector_distance_half: "Vector_distance (Vector_scale m (1 / 2)) = Vector_distance m / 2"
  by (simp add: Vector_distance_scale)

text \<open>
  Claim C6. Under the Box strategy, with an MTV of length \<open>M\<close>: two distinct Active
  bodies each move by \<open>M / 2\<close>, A against the MTV and B along it; of a Fixed and an Active
  body, the Fixed one stays where it is and the Active one moves by the whole MTV, of
  length \<open>M\<close>.
\<close>

theorem box_split_overlap:
  "(collisionType (bodies s (bodyA_of s)) = Active \<and> collisionType (bodies s (bodyB_of s)) = Active
      \<and> bodyA_of s \<noteq> bodyB_of s \<longrightarrow>
        pos (bodies (snd (resolve env Box s)) (bodyA_of s))
          = Vector_sub (pos (bodies s (bodyA_of s))) (Vector_scale (mtv (this s)) (1 / 2))
      \<and> pos (bodies (snd (resolve env Box s)) (bodyB_of s))
          = Vector_add (pos (bodies s (bodyB_of s))) (Vector_scale (mtv (this s)) (1 / 2))
      \<and> Vector_distance (Vector_sub (pos (bodies (snd (resolve env Box s)) (bodyA_of s)))
                                     (pos (bodies s (bodyA_of s))))
          = Vector_distance (mtv (this s)) / 2
      \<and> Vector_distance (Vector_sub (pos (bodies (snd (resolve env Box s)) (bodyB_of s)))
                                     (pos (bodies s (bodyB_of s))))
          = Vector_distance (mtv (this s)) / 2)
 \<and> (collisionType (bodies s (bodyA_of s)) = Fixed \<and> collisionType (bodies s (bodyB_of s)) = Active \<longrightarrow>
        pos (bodies (snd (resolve env Box s)) (bodyA_of s)) = pos (bodies s (bodyA_of s))
      \<and> pos (bodies (snd (resolve env Box s)) (bodyB_of s))
          = Vector_add (pos (bodies s (bodyB_of s))) (mtv (this s))
      \<and> Vector_distance (Vector_sub (pos (bodies (snd (resolve env Box s)) (bodyB_of s)))
                                     (pos (bodies s (bodyB_of s))))
          = Vector_distance (mtv (this s)))
 \<and> (collisionType (bodies s (bodyA_of s)) = Active \<and> collisionType (bodies s (bodyB_of s)) = Fixed \<longrightarrow>
        pos (bodies (snd (resolve env Box s)) (bodyB_of s)) = pos (bodies s (bodyB_of s))
      \<and> pos (bodies (snd (resolve env Box s)) (bodyA_of s))
          = Vector_sub (pos (bodies s (bodyA_of s))) (mtv (this s))
      \<and> Vector_distance (Vector_sub (pos (bodies (snd (resolve env Box s)) (bodyA_of s)))
                                     (pos (bodies s (bodyA_of s))))
          = Vector_distance (mtv (this s)))"
proof (intro conjI impI)
  assume h: "collisionType (bodies s (bodyA_of s)) = Active \<and> collisionType (bodies s (bodyB_of s)) = Active
      \<and> bodyA_of s \<noteq> bodyB_of s"
  then have ab: "bodyA_of s \<noteq> bodyB_of s" by simp
  from h show pa: "pos (bodies (snd (resolve env Box s)) (bodyA_of s))
          = Vector_sub (pos (bodies s (bodyA_of s))) (Vector_scale (mtv (this s)) (1 / 2))"
    by (simp add: resolve_def resolveBoxCollision_bodies applyBoxImpulse_other applyBoxImpulse_pos
          Vector_scale_negate Vector_add_negate)
  from h show pb: "pos (bodies (snd (resolve env Box s)) (bodyB_of s))
          = Vector_add (pos (bodies s (bodyB_of s))) (Vector_scale (mtv (this s)) (1 / 2))"
    using ab [symmetric]
    by (simp add: resolve_def resolveBoxCollision_bodies applyBoxImpulse_other applyBoxImpulse_pos)
  show "Vector_distance (Vector_sub (pos (bodies (snd (resolve env Box s)) (bodyA_of s)))
                                     (pos (bodies s (bodyA_of s))))
          = Vector_distance (mtv (this s)) / 2"
    by (simp add: pa Vector_sub_sub_cancel Vector_distance_negate Vector_distance_half)
  show "Vector_distance (Vector_sub (pos (bodies (snd (resolve env Box s)) (bodyB_of s)))
                                     (pos (bodies s (bodyB_of s))))
          = Vector_distance (mtv (this s)) / 2"
    by (simp add: pb Vector_sub_add_cancel Vector_distance_half)
next
  assume h: "collisionType (bodies s (bodyA_of s)) = Fixed \<and> collisionType (bodies s (bodyB_of s)) = Active"
  then have ab: "bodyA_of s \<noteq> bodyB_of s" by auto
  from h show "pos (bodies (snd (resolve env Box s)) (bodyA_of s)) = pos (bodies s (bodyA_of s))"
    using ab
    by (simp add: resolve_def resolveBoxCollision_bodies applyBoxImpulse_other applyBoxImpulse_skipped)
  from h show pb: "pos (bodies (snd (resolve env Box s)) (bodyB_of s))
          = Vector_add (pos (bodies s (bodyB_of s))) (mtv (this s))"
    by (simp add: resolve_def resolveBoxCollision_bodies applyBoxImpulse_skipped applyBoxImpulse_pos)
  show "Vector_distance (Vector_sub (pos (bodies (snd (resolve env Box s)) (bodyB_of s)))
                                     (pos (bodies s (bodyB_of s))))
          = Vector_distance (mtv (this s))"
    by (simp add: pb Vector_sub_add_cancel)
next
  assume h: "collisionType (bodies s (bodyA_of s)) = Active \<and> collisionType (bodies s (bodyB_of s)) = Fixed"
  then have ab: "bodyA_of s \<noteq> bodyB_of s" by auto
  from h show "pos (bodies (snd (resolve env Box s)) (bodyB_of s)) = pos (bodies s (bodyB_of s))"
    by (simp add: resolve_def resolveBoxCollision_bodies applyBoxImpulse_skipped
          applyBoxImpulse_other ab [symmetric])
  from h show pa: "pos (bodies (snd (resolve env Box s)) (bodyA_of s))
          = Vector_sub (pos (bodies s (bodyA_of s))) (mtv (this s))"
    by (simp add: resolve_def resolveBoxCollision_bodies applyBoxImpulse_skipped applyBoxImpulse_pos
          Vector_add_negate)
  show "Vector_distance (Vector_sub (pos (bodies (snd (resolve env Box s)) (bodyA_of s)))
                                     (pos (bodies s (bodyA_of s))))
          = Vector_distance (mtv (this s))"
    by (simp add: pa Vector_sub_sub_cancel Vector_distance_negate)
qed

lemma sqrt_four: "sqrt 4 = 2"
  using real_sqrt_abs [of 2] by simp

theorem box_split_overlap_witness:
  "bodyA_of (exampleWorld Active (Vector 1 0) Active (Vector 0 0) 0)
     \<noteq> bodyB_of (exampleWorld Active (Vector 1 0) Active (Vector 0 0) 0)
   \<and> Vector_distance (mtv (this (exampleWorld Active (Vector 1 0) Active (Vector 0 0) 0))) = 2
   \<and> pos (bodies (exampleWorld Active (Vector 1 0) Active (Vector 0 0) 0) 0) = Vector 0 0
   \<and> pos (bodies (exampleWorld Active (Vector 1 0) Active (Vector 0 0) 0) 1) = Vector 3 0
   \<and> pos (bodies (snd (resolve exampleEnv Box (exampleWorld Active (Vector 1 0) Active (Vector 0 0) 0))) 0)
       = Vector (- 1) 0
   \<and> pos (bodies (snd (resolve exampleEnv Box (exampleWorld Active (Vector 1 0) Active (Vector 0 0) 0))) 1)
       = Vector 4 0
   \<and> pos (bodies (snd (resolve exampleEnv Box (exampleWorld Fixed (Vector 0 0) Active (Vector 0 0) 0))) 0)
       = Vector 0 0
   \<and> pos (bodies (snd (resolve exampleEnv Box (exampleWorld Fixed (Vector 0 0) Active (Vector 0 0) 0))) 1)
       = Vector 5 0
   \<and> pos (bodies (snd (resolve exampleEnv Box (exampleWorld Active (Vector 0 0) Fixed (Vector 0 0) 0))) 0)
       = Vector (- 2) 0
   \<and> pos (bodies (snd (resolve exampleEnv Box (exampleWorld Active (Vector 0 0) Fixed (Vector 0 0) 0))) 1)
       = Vector 3 0"
  using box_split_overlap [of "exampleWorld Active (Vector 1 0) Active (Vector 0 0) 0" exampleEnv]
        box_split_overlap [of "exampleWorld Fixed (Vector 0 0) Active (Vector 0 0) 0" exampleEnv]
        box_split_overlap [of "exampleWorld Active (Vector 0 0) Fixed (Vector 0 0) 0" exampleEnv]
  by (simp add: Vector_add_def Vector_sub_def Vector_scale_def Vector_distance_def sqrt_four)

text \<open>
  Claim C7. In the positional impulse of the Box strategy, let \<open>d\<close> be the direction of
  the (possibly halved) MTV of a receiving body, an Active body whose partner is not
  Passive. If the body's velocity has a negative dot product with \<open>d\<close>, the adjusted
  velocity has no component along \<open>d\<close> and the same component across \<open>d\<close> as before; if
  the dot product is not negative, the velocity stays as it was. The MTV is not the zero
  vector, which has no direction, or else \<open>normalize\<close> answers the zero vector with a unit
  vector.
\<close>

theorem box_impulse_cancels_opposing_velocity:
  assumes a: "collisionType (bodies s bodyA) = Active"
    and b: "collisionType (bodies s bodyB) \<noteq> Passive"
    and nz: "m0 \<noteq> Vector 0 0 \<or> Vector_distance (normalizeZero env) = 1"
  shows "let d = Vector_normalize (normalizeZero env)
                   (if collisionType (bodies s bodyB) = Active then Vector_scale m0 (1 / 2) else m0);
             v = vel (bodies s bodyA);
             v' = vel (bodies (applyBoxImpulse env bodyA bodyB m0 s) bodyA)
         in (Vector_dot d v < 0 \<longrightarrow>
               Vector_dot v' d = 0 \<and> Vector_dot v' (Vector_normal d) = Vector_dot v (Vector_normal d))
          \<and> (0 \<le> Vector_dot d v \<longrightarrow> v' = v)"
  unfolding Let_def using a b nz by (rule box_velocity_adjustment) simp_all

theorem box_impulse_cancels_opposing_velocity_witness:
  "collisionType (bodies (exampleWorld Active (Vector 1 5) Fixed (Vector 0 0) 0) 0) = Active
   \<and> collisionType (bodies (exampleWorld Active (Vector 1 5) Fixed (Vector 0 0) 0) 1) \<noteq> Passive
   \<and> Vector (- 1) 0 \<noteq> Vector 0 0
   \<and> Vector_dot (Vector (- 1) 0) (Vector 1 5) < 0
   \<and> vel (bodies (applyBoxImpulse exampleEnv 0 1 (Vector (- 1) 0)
                    (exampleWorld Active (Vector 1 5) Fixed (Vector 0 0) 0)) 0) = Vector 0 5"
proof -
  have "vx (vel (bodies (applyBoxImpulse exampleEnv 0 1 (Vector (- 1) 0)
                    (exampleWorld Active (Vector 1 5) Fixed (Vector 0 0) 0)) 0)) = 0
      \<and> vy (vel (bodies (applyBoxImpulse exampleEnv 0 1 (Vector (- 1) 0)
                    (exampleWorld Active (Vector 1 5) Fixed (Vector 0 0) 0)) 0)) = 5"
    using box_impulse_cancels_opposing_velocity
            [of "exampleWorld Active (Vector 1 5) Fixed (Vector 0 0) 0" 0 1 "Vector (- 1) 0" exampleEnv]
    by (simp add: Let_def Vector_normalize_def Vector_distance_def Vector_dot_def Vector_normal_def)
  then have "vel (bodies (applyBoxImpulse exampleEnv 0 1 (Vector (- 1) 0)
                    (exampleWorld Active (Vector 1 5) Fixed (Vector 0 0) 0)) 0) = Vector 0 5"
    by (intro Vector.expand) simp
  then show ?thesis by (simp add: Vector_dot_def)
qed

subsection \<open>The contact's fields when vectors are shared\<close>

lemma readVector_pos_cong:
  "(\<And>b. ref = PosOf b \<Longrightarrow> pos (bodies s' b) = pos (bodies s b)) \<Longrightarrow>
   readVector s' ref = readVector s ref"
  by (cases ref) simp_all

lemma readContact_cong:
  assumes t: "this s' = this s"
    and p: "\<And>b. PosOf b \<in> {mtvRef r, pointRef r, normalRef r} \<Longrightarrow> pos (bodies s' b) = pos (bodies s b)"
  shows "readContact r s' = readContact r s"
proof -
  have "readVector s' (mtvRef r) = readVector s (mtvRef r)"
    by (rule readVector_pos_cong) (simp add: p)
  moreover have "readVector s' (pointRef r) = readVector s (pointRef r)"
    by (rule readVector_pos_cong) (simp add: p)
  moreover have "readVector s' (normalRef r) = readVector s (normalRef r)"
    by (rule readVector_pos_cong) (simp add: p)
  ultimately show ?thesis by (simp add: readContact_def t)
qed

lemma readContact_idem [simp]:
  "readContact r (s\<lparr>this := readContact r s\<rparr>) = readContact r s"
proof -
  have "readContact r (s\<lparr>this := readContact r s\<rparr>) = readContact r (s\<lparr>this := this s\<rparr>)"
    by (cases "mtvRef r"; cases "pointRef r"; cases "normalRef r") (simp_all add: readContact_def)
  then show ?thesis by simp
qed

lemma set_pos_shared_fields [simp]:
  "bodies (set_pos_shared r b v s) = (bodies s)(b := (bodies s b)\<lparr>pos := v\<rparr>)"
  "colliders (set_pos_shared r b v s) = colliders s"
  "emitted (set_pos_shared r b v s) = emitted s"
  "this (set_pos_shared r b v s) = readContact r (set_pos b v s)"
  by (simp_all add: set_pos_shared_def Let_def)

lemma readContact_emit [simp]: "readContact r (emit t n e s) = readContact r s"
  by (rule readContact_cong) simp_all

lemma readContact_set_vel [simp]: "readContact r (set_vel b v s) = readContact r s"
  by (rule readContact_cong) simp_all

lemma readContact_set_pos_shared [simp]:
  "readContact r (set_pos_shared r b v s) = readContact r (set_pos b v s)"
  by (simp add: set_pos_shared_def Let_def)

lemma readContact_colliders [simp]:
  "colliderA (readContact r s) = colliderA (this s)"
  "colliderB (readContact r s) = colliderB (this s)"
  by (simp_all add: readContact_def)

lemma readContact_eqI:
  assumes a: "colliderA (this s') = colliderA (this s)"
    and b: "colliderB (this s') = colliderB (this s)"
    and p: "\<And>b. PosOf b \<in> {mtvRef r, pointRef r, normalRef r} \<Longrightarrow> pos (bodies s' b) = pos (bodies s b)"
  shows "readContact r s' = readContact r s"
proof -
  have "readContact r s' = readContact r (s'\<lparr>this := this s\<rparr>)"
    using a b by (cases "mtvRef r"; cases "pointRef r"; cases "normalRef r")
                 (simp_all add: readContact_def)
  also have "\<dots> = readContact r s"
    by (rule readContact_cong) (simp_all add: p)
  finally show ?thesis .
qed

lemma applyBoxImpulse_shared_inv:
  "readContact r s = this s \<Longrightarrow>
   readContact r (applyBoxImpulse_shared r env a b m s) = this (applyBoxImpulse_shared r env a b m s)"
  by (simp add: applyBoxImpulse_shared_def Let_def)

lemma applyBoxImpulse_shared_bodies:
  "bodies s = bodies s' \<Longrightarrow>
   bodies (applyBoxImpulse_shared r env a b m s) = bodies (applyBoxImpulse env a b m s')"
  by (simp add: applyBoxImpulse_shared_def applyBoxImpulse_def Let_def)

lemma applyBoxImpulse_shared_emitted:
  "bodies s = bodies s' \<Longrightarrow> emitted s = emitted s' \<Longrightarrow>
   emitted (applyBoxImpulse_shared r env a b m s) = emitted (applyBoxImpulse env a b m s')"
  by (simp add: applyBoxImpulse_shared_def applyBoxImpulse_def Let_def)

lemma applyBoxImpulse_shared_contact_colliders [simp]:
  "colliderA (this (applyBoxImpulse_shared r env a b m s)) = colliderA (this s)"
  "colliderB (this (applyBoxImpulse_shared r env a b m s)) = colliderB (this s)"
  by (simp_all add: applyBoxImpulse_shared_def Let_def)

lemma resolveBoxCollision_shared_inv:
  "readContact r s = this s \<Longrightarrow>
   readContact r (resolveBoxCollision_shared r env s) = this (resolveBoxCollision_shared r env s)"
  unfolding resolveBoxCollision_shared_def Let_def
  by (intro applyBoxImpulse_shared_inv) simp

lemma resolveBoxCollision_shared_bodies:
  "bodies (resolveBoxCollision_shared r env s) = bodies (resolveBoxCollision env s)"
  unfolding resolveBoxCollision_shared_def resolveBoxCollision_def Let_def
  by (intro applyBoxImpulse_shared_bodies) simp

lemma resolveBoxCollision_shared_emitted:
  "emitted (resolveBoxCollision_shared r env s) = emitted (resolveBoxCollision env s)"
  unfolding resolveBoxCollision_shared_def resolveBoxCollision_def Let_def
  by (intro applyBoxImpulse_shared_emitted applyBoxImpulse_shared_bodies) simp_all

lemma resolveBoxCollision_shared_contact_colliders [simp]:
  "colliderA (this (resolveBoxCollision_shared r env s)) = colliderA (this s)"
  "colliderB (this (resolveBoxCollision_shared r env s)) = colliderB (this s)"
  by (simp_all add: resolveBoxCollision_shared_def Let_def)

lemma resolveBoxCollision_other:
  "c \<noteq> bodyA_of s \<Longrightarrow> c \<noteq> bodyB_of s \<Longrightarrow> bodies (resolveBoxCollision env s) c = bodies s c"
  by (simp add: resolveBoxCollision_bodies applyBoxImpulse_other)

lemma rb_applyImpulse_pos [simp]:
  "pos (bodies (rb_applyImpulse env s0 s) b) = pos (bodies s b)"
  by (simp add: rb_applyImpulse_def Let_def)

lemma rb_applyFriction_pos [simp]:
  "pos (bodies (rb_applyFriction env s0 s) b) = pos (bodies s b)"
  by (simp add: rb_applyFriction_def Let_def)

lemma resolveRigidBodyCollision_pos:
  "pos (bodies (resolveRigidBodyCollision env s) b) = pos (bodies s b)"
  by (simp add: resolveRigidBodyCollision_bodies)

lemma resolve_shared_bodies:
  "fst (resolve_shared r env strategy s) = fst (resolve env strategy s)
   \<and> bodies (snd (resolve_shared r env strategy s)) = bodies (snd (resolve env strategy s))
   \<and> emitted (snd (resolve_shared r env strategy s)) = emitted (snd (resolve env strategy s))"
  by (simp add: resolve_shared_def resolve_def resolveBoxCollision_shared_bodies
        resolveBoxCollision_shared_emitted)

text \<open>
  Claim C10. With the contact's fields as references: after \<open>resolve\<close> the contact reads
  as it did before, \<open>mtv\<close>, \<open>point\<close> and \<open>normal\<close>, under the RigidBody strategy and for
  an unknown strategy always, and under the Box strategy when none of the three is the
  position object of one of the contact's two bodies. Negation, scaling, halving and
  normalization work on new vectors; the Box strategy's writes to \<open>bodyA.pos\<close> do not.
\<close>

theorem resolve_keeps_contact:
  assumes inv: "readContact r s = this s"
  shows "readContact r (snd (resolve_shared r env strategy s))
           = this (snd (resolve_shared r env strategy s))
       \<and> (strategy \<noteq> Box \<or> shares_no_position r s \<longrightarrow>
            this (snd (resolve_shared r env strategy s)) = this s)"
proof (cases "strategy = RigidBody")
  case True
  have "readContact r (resolveRigidBodyCollision env s) = readContact r s"
    by (rule readContact_eqI) (simp_all add: resolveRigidBodyCollision_pos)
  with True inv show ?thesis by (simp add: resolve_shared_def)
next
  case nrb: False
  show ?thesis
  proof (cases "strategy = Box")
    case True
    have i: "readContact r (resolveBoxCollision_shared r env s) = this (resolveBoxCollision_shared r env s)"
      using inv by (rule resolveBoxCollision_shared_inv)
    have "readContact r (resolveBoxCollision_shared r env s) = readContact r s"
      if n: "shares_no_position r s"
    proof (rule readContact_eqI)
      fix b assume "PosOf b \<in> {mtvRef r, pointRef r, normalRef r}"
      with n have "b \<noteq> bodyA_of s" "b \<noteq> bodyB_of s"
        by (auto simp add: shares_no_position_def)
      then show "pos (bodies (resolveBoxCollision_shared r env s) b) = pos (bodies s b)"
        by (simp add: resolveBoxCollision_shared_bodies resolveBoxCollision_other)
    qed simp_all
    with True i inv show ?thesis by (auto simp add: resolve_shared_def)
  next
    case False
    with nrb inv show ?thesis by (simp add: resolve_shared_def)
  qed
qed

theorem resolve_keeps_contact_witness:
  "readContact ownRefs (exampleWorld Active (Vector 1 0) Active (Vector 0 0) 0)
     = this (exampleWorld Active (Vector 1 0) Active (Vector 0 0) 0)
   \<and> shares_no_position ownRefs (exampleWorld Active (Vector 1 0) Active (Vector 0 0) 0)
   \<and> this (snd (resolve_shared ownRefs exampleEnv Box
                   (exampleWorld Active (Vector 1 0) Active (Vector 0 0) 0)))
       = exampleContact"
proof -
  have inv: "readContact ownRefs (exampleWorld Active (Vector 1 0) Active (Vector 0 0) 0)
     = this (exampleWorld Active (Vector 1 0) Active (Vector 0 0) 0)"
    by (simp add: readContact_def ownRefs_def exampleContact_def)
  have n: "shares_no_position ownRefs (exampleWorld Active (Vector 1 0) Active (Vector 0 0) 0)"
    by (simp add: shares_no_position_def ownRefs_def)
  show ?thesis
    using inv n resolve_keeps_contact [OF inv, of exampleEnv Box] by simp
qed

text \<open>
  The claim without the proviso fails: a contact whose point is the position object of
  body 0, Active against a Fixed body 1, reads \<open>(0, 0)\<close> before the Box strategy moves
  body 0 by the negated MTV and \<open>(-2, 0)\<close> after.
\<close>

theorem resolve_moves_shared_contact_point:
  "readContact pointAtBodyA pointAtBodyAWorld = this pointAtBodyAWorld
   \<and> point (this pointAtBodyAWorld) = Vector 0 0
   \<and> point (this (snd (resolve_shared pointAtBodyA exampleEnv Box pointAtBodyAWorld))) = Vector (- 2) 0"
  by (simp add: pointAtBodyAWorld_def pointAtBodyA_def readContact_def exampleContact_def
        resolve_shared_def resolveBoxCollision_shared_def applyBoxImpulse_shared_def Let_def
        bodyA_of_def bodyB_of_def set_pos_def Vector_negate_def Vector_normalize_def
        Vector_distance_def Vector_dot_def Vector_scale_def Vector_add_def)

end
